theory Spec2Isabelle
  imports Main
begin

section \<open>Python values and library functions\<close>

text \<open>
  The values a caller can hand to a compiled callable.  The modelled fragment of Python's
  value universe is \<open>None\<close>, \<open>bool\<close>, \<open>int\<close>, \<open>str\<close> and \<open>list\<close>; floats, tuples,
  dictionaries, UUIDs and timestamps are outside it.
\<close>

datatype pyval = PNone | PBool bool | PInt int | PStr string | PList "pyval list"

text \<open>The semantic types of the table \<open>click_to_python_types\<close> and the four shapes
  \<open>get_annotation\<close> builds from them.\<close>

datatype py_type = T_str | T_int | T_float | T_bool | T_UUID | T_datetime | T_tuple | T_JSON

datatype annotation =
    Plain py_type
  | ListOf py_type
  | OptionalOf py_type
  | OptionalListOf py_type

datatype click_type =
    StringParamType | IntParamType | FloatParamType | BoolParamType | UUIDParameterType
  | Path | DateTime | Tuple | Choice | File | JSONTypeClass | FilePathClass | LocalFileInput
  | OtherParamType

datatype param_class = Argument | Option | OtherParameter

text \<open>A \<open>click.Argument\<close> or \<open>click.Option\<close>, with the attributes the program reads.\<close>

record click_param =
  p_class :: param_class
  p_name :: string
  p_opts :: "string list"
  p_secondary_opts :: "string list"
  p_is_bool_flag :: bool
  p_required :: bool
  p_multiple :: bool
  p_nargs :: int
  p_type :: click_type
  p_default :: pyval

text \<open>A flow-level \<open>Parameter\<close> of the user's flow class: its name, the class attribute
  \<open>IS_CONFIG_PARAMETER\<close> and the keyword arguments it keeps for \<open>click.Option\<close>.\<close>

record option_kwargs =
  kw_type :: click_type
  kw_required :: bool
  kw_multiple :: bool
  kw_is_flag :: bool
  kw_default :: pyval

record flow_param =
  fp_name :: string
  IS_CONFIG_PARAMETER :: bool
  fp_kwargs :: option_kwargs

text \<open>
  Functions of libraries the program calls and that are not part of its source are taken
  as parameters: \<open>check_type\<close> of typeguard (true when no \<open>TypeCheckError\<close> is raised),
  \<open>json.dumps\<close>, Python's \<open>str\<close> on a list object, and the constructor \<open>click.Option\<close>
  applied to the declarations and keyword arguments.
\<close>

record pylib =
  check_type :: "pyval \<Rightarrow> annotation \<Rightarrow> bool"
  json_dumps :: "pyval \<Rightarrow> string"
  str_of_list :: "pyval list \<Rightarrow> string"
  click_Option :: "string list \<Rightarrow> option_kwargs \<Rightarrow> click_param"

datatype error =
    ValueError string
  | TypeError string annotation pyval
  | TypeError_call string
  | KeyError string
  | IndexError
  | UnboundLocalError string
  | AttributeError
  | RuntimeError string

subsection \<open>Strings\<close>

fun nat_str :: "nat \<Rightarrow> string" where
  "nat_str n =
     (if n < 10 then [''0123456789'' ! n]
      else nat_str (n div 10) @ [''0123456789'' ! (n mod 10)])"

declare nat_str.simps [simp del]

definition int_str :: "int \<Rightarrow> string" where
  "int_str i = (if i < 0 then CHR ''-'' # nat_str (nat (- i)) else nat_str (nat i))"

text \<open>Python's \<open>str(v)\<close>.\<close>

fun py_str :: "pylib \<Rightarrow> pyval \<Rightarrow> string" where
  "py_str L PNone = ''None''"
| "py_str L (PBool b) = (if b then ''True'' else ''False'')"
| "py_str L (PInt i) = int_str i"
| "py_str L (PStr s) = s"
| "py_str L (PList xs) = str_of_list L xs"

text \<open>\<open>s.strip("-")\<close>: leading and trailing dashes removed.\<close>

definition strip_dash :: "string \<Rightarrow> string" where
  "strip_dash s =
     rev (dropWhile (\<lambda>c. c = CHR ''-'') (rev (dropWhile (\<lambda>c. c = CHR ''-'') s)))"

text \<open>\<open>sep.join(xs)\<close>.\<close>

fun join :: "string \<Rightarrow> string list \<Rightarrow> string" where
  "join sep [] = []"
| "join sep [x] = x"
| "join sep (x # y # ys) = x @ sep @ join sep (y # ys)"

text \<open>\<open>v == True\<close> and \<open>v == False\<close>: a bool compares equal to itself and to the
  integers 1 and 0.\<close>

fun py_eq_bool :: "pyval \<Rightarrow> bool \<Rightarrow> bool" where
  "py_eq_bool (PBool a) b = (a = b)"
| "py_eq_bool (PInt i) b = (i = (if b then 1 else 0))"
| "py_eq_bool _ b = False"

subsection \<open>Ordered dictionaries\<close>

text \<open>
  A dict or \<open>OrderedDict\<close> is an association list with distinct keys in insertion order.
  \<open>d[k] = v\<close> replaces the value of a key that is present and leaves it where it is,
  and appends a new key.
\<close>

fun od_set :: "'k \<Rightarrow> 'v \<Rightarrow> ('k \<times> 'v) list \<Rightarrow> ('k \<times> 'v) list" where
  "od_set k v [] = [(k, v)]"
| "od_set k v ((k', v') # d) =
     (if k' = k then (k, v) # d else (k', v') # od_set k v d)"

definition od_update :: "('k \<times> 'v) list \<Rightarrow> ('k \<times> 'v) list \<Rightarrow> ('k \<times> 'v) list" where
  "od_update d other = foldl (\<lambda>acc (k, v). od_set k v acc) d other"

definition od_keys :: "('k \<times> 'v) list \<Rightarrow> 'k list" where
  "od_keys d = map fst d"

definition od_mem :: "'k \<Rightarrow> ('k \<times> 'v) list \<Rightarrow> bool" where
  "od_mem k d = (k \<in> set (od_keys d))"

section \<open>Signatures: \<open>get_annotation\<close> and \<open>extract_all_params\<close>\<close>

fun click_to_python_types :: "click_type \<Rightarrow> py_type option" where
  "click_to_python_types StringParamType = Some T_str"
| "click_to_python_types IntParamType = Some T_int"
| "click_to_python_types FloatParamType = Some T_float"
| "click_to_python_types BoolParamType = Some T_bool"
| "click_to_python_types UUIDParameterType = Some T_UUID"
| "click_to_python_types Path = Some T_str"
| "click_to_python_types DateTime = Some T_datetime"
| "click_to_python_types Tuple = Some T_tuple"
| "click_to_python_types Choice = Some T_str"
| "click_to_python_types File = Some T_str"
| "click_to_python_types JSONTypeClass = Some T_JSON"
| "click_to_python_types FilePathClass = Some T_str"
| "click_to_python_types LocalFileInput = Some T_str"
| "click_to_python_types OtherParamType = None"

text \<open>\<open>Optional[t]\<close>.  The alias \<open>JSON\<close> is a \<open>Union\<close> that already has \<open>None\<close> among
  its members, so \<open>Optional[JSON]\<close> is the same type as \<open>JSON\<close>.\<close>

definition Optional :: "py_type \<Rightarrow> annotation" where
  "Optional t = (if t = T_JSON then Plain T_JSON else OptionalOf t)"

definition JSON :: annotation where
  "JSON = Plain T_JSON"

definition get_annotation :: "click_param \<Rightarrow> error + annotation" where
  "get_annotation param =
     (case click_to_python_types (p_type param) of
        None \<Rightarrow> Inl (KeyError ''type(param.type)'')
      | Some py_type \<Rightarrow>
          Inr (if \<not> p_required param then
                 (if p_multiple param \<or> p_nargs param = - 1 then OptionalListOf py_type
                  else Optional py_type)
               else
                 (if p_multiple param \<or> p_nargs param = - 1 then ListOf py_type
                  else Plain py_type)))"

datatype param_kind = POSITIONAL_ONLY | KEYWORD_ONLY

record inspect_param =
  ip_name :: string
  ip_kind :: param_kind
  ip_default :: pyval
  ip_annotation :: annotation

definition get_inspect_param_obj :: "click_param \<Rightarrow> param_kind \<Rightarrow> error + inspect_param" where
  "get_inspect_param_obj p kind =
     (case get_annotation p of
        Inl e \<Rightarrow> Inl e
      | Inr a \<Rightarrow> Inr \<lparr>ip_name = p_name p, ip_kind = kind, ip_default = p_default p,
                      ip_annotation = a\<rparr>)"

text \<open>The seven dictionaries of \<open>extract_all_params\<close>; the function returns five of them.\<close>

record extract_state =
  arg_params_sigs :: "(string \<times> inspect_param) list"
  opt_params_sigs :: "(string \<times> inspect_param) list"
  arg_parameters :: "(string \<times> click_param) list"
  opt_parameters :: "(string \<times> click_param) list"
  annotations :: "(string \<times> annotation) list"
  defaults :: "(string \<times> pyval) list"

record extracted =
  params_sigs :: "(string \<times> inspect_param) list"
  possible_arg_params :: "(string \<times> click_param) list"
  possible_opt_params :: "(string \<times> click_param) list"
  x_annotations :: "(string \<times> annotation) list"
  x_defaults :: "(string \<times> pyval) list"

definition extract_init :: extract_state where
  "extract_init = \<lparr>arg_params_sigs = [], opt_params_sigs = [], arg_parameters = [],
     opt_parameters = [], annotations = [], defaults = []\<rparr>"

text \<open>One round of the loop over \<open>cmd_obj.params\<close>.\<close>

definition extract_one :: "extract_state \<Rightarrow> click_param \<Rightarrow> error + extract_state" where
  "extract_one s each_param =
     (case (case p_class each_param of
              Argument \<Rightarrow>
                (case get_inspect_param_obj each_param POSITIONAL_ONLY of
                   Inl e \<Rightarrow> Inl e
                 | Inr sg \<Rightarrow>
                     Inr (s\<lparr>arg_params_sigs := od_set (p_name each_param) sg (arg_params_sigs s),
                            arg_parameters :=
                              od_set (p_name each_param) each_param (arg_parameters s)\<rparr>))
            | Option \<Rightarrow>
                (case get_inspect_param_obj each_param KEYWORD_ONLY of
                   Inl e \<Rightarrow> Inl e
                 | Inr sg \<Rightarrow>
                     Inr (s\<lparr>opt_params_sigs := od_set (p_name each_param) sg (opt_params_sigs s),
                            opt_parameters :=
                              od_set (p_name each_param) each_param (opt_parameters s)\<rparr>))
            | OtherParameter \<Rightarrow> Inr s) of
        Inl e \<Rightarrow> Inl e
      | Inr s' \<Rightarrow>
          (case get_annotation each_param of
             Inl e \<Rightarrow> Inl e
           | Inr a \<Rightarrow>
               Inr (s'\<lparr>annotations := od_set (p_name each_param) a (annotations s'),
                       defaults :=
                         od_set (p_name each_param) (p_default each_param) (defaults s')\<rparr>)))"

fun extract_loop :: "extract_state \<Rightarrow> click_param list \<Rightarrow> error + extract_state" where
  "extract_loop s [] = Inr s"
| "extract_loop s (p # ps) =
     (case extract_one s p of Inl e \<Rightarrow> Inl e | Inr s' \<Rightarrow> extract_loop s' ps)"

definition extract_all_params :: "click_param list \<Rightarrow> error + extracted" where
  "extract_all_params params =
     (case extract_loop extract_init params of
        Inl e \<Rightarrow> Inl e
      | Inr s \<Rightarrow>
          Inr \<lparr>params_sigs = od_update (od_update [] (arg_params_sigs s)) (opt_params_sigs s),
               possible_arg_params = arg_parameters s,
               possible_opt_params = opt_parameters s,
               x_annotations = annotations s,
               x_defaults = defaults s\<rparr>)"

section \<open>Binding: \<open>_method_sanity_check\<close>\<close>

text \<open>\<open>method_params = {"args": {}, "options": {}}\<close>: a dictionary with two fixed keys.\<close>

record method_params =
  mp_args :: "(string \<times> pyval) list"
  mp_options :: "(string \<times> pyval) list"

definition unknown_msg :: "string \<Rightarrow> string list \<Rightarrow> string" where
  "unknown_msg supplied_k names =
     ''Unknown argument: '' @ [CHR 0x27] @ supplied_k @ [CHR 0x27]
       @ '', possible args are: '' @ join '', '' names"

definition missing_msg :: "string \<Rightarrow> string" where
  "missing_msg cli_name = ''Missing argument: '' @ cli_name @ '' is required.''"

text \<open>\<open>opts[0].strip("-")\<close>; indexing an empty list raises.\<close>

definition opts0 :: "string list \<Rightarrow> error + string" where
  "opts0 opts = (case opts of [] \<Rightarrow> Inl IndexError | x # _ \<Rightarrow> Inr (strip_dash x))"

text \<open>
  One round of the loop over the supplied kwargs.  The loop's state is \<open>method_params\<close>
  together with the local variable \<open>cli_name\<close>, which keeps its value from one round to
  the next and is unbound (\<open>None\<close>) before its first assignment: a boolean flag whose
  value equals neither \<open>True\<close> nor \<open>False\<close> reaches the store with whatever \<open>cli_name\<close>
  holds.  The TypeError keeps the three values its message is formatted from.
\<close>

definition bind_kwarg ::
  "pylib \<Rightarrow> (string \<times> click_param) list \<Rightarrow> (string \<times> click_param) list \<Rightarrow>
   (string \<times> click_param) list \<Rightarrow> (string \<times> annotation) list \<Rightarrow> (string \<times> pyval) list \<Rightarrow>
   method_params \<times> string option \<Rightarrow> string \<times> pyval \<Rightarrow>
   error + method_params \<times> string option" where
  "bind_kwarg L possible_params arg_ps opt_ps anns defs st kv =
     (let mp = fst st; cli_name = snd st; supplied_k = fst kv; supplied_v = snd kv in
      if \<not> od_mem supplied_k possible_params then
        Inl (ValueError (unknown_msg supplied_k (od_keys possible_params)))
      else
        (case map_of anns supplied_k of
           None \<Rightarrow> Inl (KeyError supplied_k)
         | Some ann \<Rightarrow>
             (if \<not> check_type L supplied_v ann then
                (case map_of defs supplied_k of
                   None \<Rightarrow> Inl (KeyError supplied_k)
                 | Some d \<Rightarrow> Inl (TypeError supplied_k ann d))
              else
                (let v = (if ann = JSON then PStr (json_dumps L supplied_v) else supplied_v) in
                 (case map_of arg_ps supplied_k of
                    Some p \<Rightarrow>
                      (case opts0 (p_opts p) of
                         Inl e \<Rightarrow> Inl e
                       | Inr c \<Rightarrow> Inr (mp\<lparr>mp_args := od_set c v (mp_args mp)\<rparr>, Some c))
                  | None \<Rightarrow>
                      (case map_of opt_ps supplied_k of
                         Some p \<Rightarrow>
                           (if p_is_bool_flag p then
                              (if py_eq_bool v True then
                                 (case opts0 (p_opts p) of
                                    Inl e \<Rightarrow> Inl e
                                  | Inr c \<Rightarrow>
                                      Inr (mp\<lparr>mp_options :=
                                                od_set c (PStr ''flag'') (mp_options mp)\<rparr>,
                                           Some c))
                               else if py_eq_bool v False then
                                 (if p_secondary_opts p \<noteq> [] then
                                    (case opts0 (p_secondary_opts p) of
                                       Inl e \<Rightarrow> Inl e
                                     | Inr c \<Rightarrow>
                                         Inr (mp\<lparr>mp_options :=
                                                   od_set c (PStr ''flag'') (mp_options mp)\<rparr>,
                                              Some c))
                                  else Inr (mp, cli_name))
                               else
                                 (case cli_name of
                                    None \<Rightarrow> Inl (UnboundLocalError ''cli_name'')
                                  | Some c \<Rightarrow>
                                      Inr (mp\<lparr>mp_options :=
                                                od_set c (PStr ''flag'') (mp_options mp)\<rparr>,
                                           Some c)))
                            else
                              (case opts0 (p_opts p) of
                                 Inl e \<Rightarrow> Inl e
                               | Inr c \<Rightarrow>
                                   Inr (mp\<lparr>mp_options := od_set c v (mp_options mp)\<rparr>,
                                        Some c)))
                       | None \<Rightarrow> Inr (mp, cli_name)))))))"

fun bind_loop ::
  "pylib \<Rightarrow> (string \<times> click_param) list \<Rightarrow> (string \<times> click_param) list \<Rightarrow>
   (string \<times> click_param) list \<Rightarrow> (string \<times> annotation) list \<Rightarrow> (string \<times> pyval) list \<Rightarrow>
   method_params \<times> string option \<Rightarrow> (string \<times> pyval) list \<Rightarrow>
   error + method_params \<times> string option" where
  "bind_loop L pp arg_ps opt_ps anns defs st [] = Inr st"
| "bind_loop L pp arg_ps opt_ps anns defs st (kv # kwargs) =
     (case bind_kwarg L pp arg_ps opt_ps anns defs st kv of
        Inl e \<Rightarrow> Inl e
      | Inr st' \<Rightarrow> bind_loop L pp arg_ps opt_ps anns defs st' kwargs)"

text \<open>The loop over the possible parameters: the first required one whose CLI name is in
  neither dictionary raises.\<close>

fun check_required :: "(string \<times> click_param) list \<Rightarrow> method_params \<Rightarrow> error + unit" where
  "check_required [] mp = Inr ()"
| "check_required ((n, possible_v) # ps) mp =
     (case opts0 (p_opts possible_v) of
        Inl e \<Rightarrow> Inl e
      | Inr cli_name \<Rightarrow>
          if (\<not> od_mem cli_name (mp_args mp) \<and> \<not> od_mem cli_name (mp_options mp))
             \<and> p_required possible_v
          then Inl (ValueError (missing_msg cli_name))
          else check_required ps mp)"

definition possible_params_of ::
  "(string \<times> click_param) list \<Rightarrow> (string \<times> click_param) list \<Rightarrow> (string \<times> click_param) list"
  where
  "possible_params_of arg_ps opt_ps = od_update (od_update [] arg_ps) opt_ps"

text \<open>The supplied kwargs are a dictionary: a list of pairs in call order.  The first
  loop of \<open>_method_sanity_check\<close> runs over them from the empty \<open>method_params\<close>.\<close>

definition bind_supplied ::
  "pylib \<Rightarrow> (string \<times> click_param) list \<Rightarrow> (string \<times> click_param) list \<Rightarrow>
   (string \<times> annotation) list \<Rightarrow> (string \<times> pyval) list \<Rightarrow> (string \<times> pyval) list \<Rightarrow>
   error + method_params \<times> string option" where
  "bind_supplied L arg_ps opt_ps anns defs kwargs =
     bind_loop L (possible_params_of arg_ps opt_ps) arg_ps opt_ps anns defs
       (\<lparr>mp_args = [], mp_options = []\<rparr>, None) kwargs"

definition method_sanity_check ::
  "pylib \<Rightarrow> (string \<times> click_param) list \<Rightarrow> (string \<times> click_param) list \<Rightarrow>
   (string \<times> annotation) list \<Rightarrow> (string \<times> pyval) list \<Rightarrow> (string \<times> pyval) list \<Rightarrow>
   error + method_params" where
  "method_sanity_check L arg_ps opt_ps anns defs kwargs =
     (case bind_supplied L arg_ps opt_ps anns defs kwargs of
        Inl e \<Rightarrow> Inl e
      | Inr st \<Rightarrow>
          (case check_required (possible_params_of arg_ps opt_ps) (fst st) of
             Inl e \<Rightarrow> Inl e
           | Inr u \<Rightarrow> Inr (fst st)))"

definition sanity_check :: "pylib \<Rightarrow> extracted \<Rightarrow> (string \<times> pyval) list \<Rightarrow> error + method_params"
  where
  "sanity_check L x kwargs =
     method_sanity_check L (possible_arg_params x) (possible_opt_params x)
       (x_annotations x) (x_defaults x) kwargs"

section \<open>Serialization: \<open>MetaflowAPI.execute\<close>\<close>

text \<open>
  The dictionary a chain entry stores under the command's name: the keys \<open>args\<close> and
  \<open>options\<close>, each present (\<open>Some\<close>) or removed (\<open>None\<close>).  A chain entry \<open>{name: params}\<close>
  is a pair.
\<close>

record stored_params =
  sp_args :: "(string \<times> pyval) list option"
  sp_options :: "(string \<times> pyval) list option"

definition store :: "method_params \<Rightarrow> stored_params" where
  "store mp = \<lparr>sp_args = Some (mp_args mp), sp_options = Some (mp_options mp)\<rparr>"

type_synonym flow_cls = "(string \<times> flow_param) list"

record method_info =
  m_name :: string
  m_doc :: "string option"
  m_sig :: extracted

datatype api_method =
    Group_method method_info "(string \<times> api_method) list"
  | Command_method method_info

datatype api_class =
    Root_class string
  | Group_class string "(string \<times> api_method) list"

fun API_NAME :: "api_class \<Rightarrow> string" where
  "API_NAME (Root_class flow_file) = flow_file"
| "API_NAME (Group_class n members) = n"

text \<open>A \<open>MetaflowAPI\<close> object.  Objects live in a heap and refer to their parent by its
  address; \<open>o_dict\<close> holds the members that \<open>setattr\<close> stored on the instance.\<close>

record api_obj =
  o_class :: api_class
  o_parent :: "nat option"
  o_chain :: "(string \<times> stored_params) list"
  o_flow_cls :: "flow_cls option"
  o_cached_computed_parameters :: "flow_param list option"
  o_dict :: "(string \<times> api_method) list"

definition obj_at :: "api_obj list \<Rightarrow> nat \<Rightarrow> api_obj option" where
  "obj_at h i = (if i < length h then Some (h ! i) else None)"

text \<open>The \<open>while current.parent\<close> loop.  An address outside the heap does not occur in
  Python; the model gives no result for it.\<close>

partial_function (option) collect_parents ::
  "api_obj list \<Rightarrow> nat \<Rightarrow> nat list \<Rightarrow> nat list option" where
  "collect_parents h current parents =
     (case obj_at h current of
        None \<Rightarrow> None
      | Some ob \<Rightarrow>
          (case o_parent ob of
             None \<Rightarrow> Some parents
           | Some p \<Rightarrow> collect_parents h p (parents @ [p])))"

declare collect_parents.simps [code]

fun emit_args :: "(string \<times> pyval) list \<Rightarrow> pyval list" where
  "emit_args [] = []"
| "emit_args ((k, v) # rest) =
     (case v of PList xs \<Rightarrow> xs | _ \<Rightarrow> [v]) @ emit_args rest"

fun emit_option_list :: "pylib \<Rightarrow> string \<Rightarrow> pyval list \<Rightarrow> pyval list" where
  "emit_option_list L k [] = []"
| "emit_option_list L k (i # rest) =
     PStr (''--'' @ k) # PStr (py_str L i) # emit_option_list L k rest"

fun emit_options :: "pylib \<Rightarrow> (string \<times> pyval) list \<Rightarrow> pyval list" where
  "emit_options L [] = []"
| "emit_options L ((k, v) # rest) =
     (case v of
        PList xs \<Rightarrow> emit_option_list L k xs
      | _ \<Rightarrow> PStr (''--'' @ k) # (if v \<noteq> PStr ''flag'' then [PStr (py_str L v)] else []))
     @ emit_options L rest"

definition pop_default :: "'a list option \<Rightarrow> 'a list" where
  "pop_default d = (case d of None \<Rightarrow> [] | Some x \<Rightarrow> x)"

text \<open>One command of the final chain: its tokens, and the entry as the two \<open>pop\<close> calls
  leave it.\<close>

definition run_cmd ::
  "pylib \<Rightarrow> string \<times> stored_params \<Rightarrow> pyval list \<times> (string \<times> stored_params)" where
  "run_cmd L each_cmd =
     (let cmd = fst each_cmd; params = snd each_cmd;
          args = pop_default (sp_args params);
          options = pop_default (sp_options params)
      in (PStr cmd # emit_args args @ emit_options L options,
          (cmd, \<lparr>sp_args = None, sp_options = None\<rparr>)))"

text \<open>The commands of one object of the ancestry, read from and written back to the
  heap.\<close>

definition run_obj :: "pylib \<Rightarrow> pyval list \<times> api_obj list \<Rightarrow> nat \<Rightarrow> pyval list \<times> api_obj list"
  where
  "run_obj L acc i =
     (let components = fst acc; h = snd acc; ob = h ! i;
          rs = map (run_cmd L) (o_chain ob)
      in (components @ concat (map fst rs), h[i := ob\<lparr>o_chain := map snd rs\<rparr>]))"

definition execute :: "pylib \<Rightarrow> api_obj list \<Rightarrow> nat \<Rightarrow> (pyval list \<times> api_obj list) option" where
  "execute L h self =
     (case collect_parents h self [] of
        None \<Rightarrow> None
      | Some parents \<Rightarrow> Some (foldl (run_obj L) ([], h) (rev parents @ [self])))"

section \<open>Compilation: \<open>extract_command\<close>, \<open>extract_group\<close>, \<open>from_cli\<close>\<close>

text \<open>
  The command tree of click.  A \<open>click.Group\<close> is a \<open>click.Command\<close> with a dictionary of
  sub-commands; anything else registered in a group is neither.
\<close>

record command_obj =
  c_name :: string
  c_params :: "click_param list"
  has_flow_params :: bool
  c_help :: "string option"

datatype click_cmd =
    Command command_obj
  | Group command_obj "(string \<times> click_cmd) list"
  | OtherCommand string

text \<open>\<open>for p in flow_parameters[::-1]: cmd_obj.params.insert(0, click.Option(...))\<close>.\<close>

definition insert_flow_params :: "pylib \<Rightarrow> flow_param list \<Rightarrow> click_param list \<Rightarrow> click_param list"
  where
  "insert_flow_params L flow_parameters params =
     foldl (\<lambda>ps p. click_Option L [''--'' @ fp_name p] (fp_kwargs p) # ps) params
       (rev flow_parameters)"

text \<open>\<open>extract_command\<close> changes the command object it is given: the second component is
  the object afterwards, also when an exception leaves the function.\<close>

definition extract_command ::
  "pylib \<Rightarrow> command_obj \<Rightarrow> flow_param list \<Rightarrow> (error + api_method) \<times> command_obj" where
  "extract_command L cmd_obj flow_parameters =
     (let cmd_obj' =
            (if has_flow_params cmd_obj
             then cmd_obj\<lparr>c_params := insert_flow_params L flow_parameters (c_params cmd_obj)\<rparr>
             else cmd_obj)
      in case extract_all_params (c_params cmd_obj') of
           Inl e \<Rightarrow> (Inl e, cmd_obj')
         | Inr x \<Rightarrow>
             (Inr (Command_method
                     \<lparr>m_name = c_name cmd_obj', m_doc = c_help cmd_obj', m_sig = x\<rparr>),
              cmd_obj'))"

definition cannot_handle :: "string \<Rightarrow> error" where
  "cannot_handle n = RuntimeError (''Cannot handle '' @ n)"

text \<open>\<open>extract_group\<close> with its loop over \<open>cmd_obj.commands\<close>; the loop fills \<open>class_dict\<close>
  under each sub-command's own name.  Both return the sub-commands as they are
  afterwards.\<close>

fun extract_group ::
  "pylib \<Rightarrow> flow_param list \<Rightarrow> command_obj \<Rightarrow> (string \<times> click_cmd) list \<Rightarrow>
   (error + api_method) \<times> (string \<times> click_cmd) list"
and extract_members ::
  "pylib \<Rightarrow> flow_param list \<Rightarrow> (string \<times> api_method) list \<Rightarrow> (string \<times> click_cmd) list \<Rightarrow>
   (error + (string \<times> api_method) list) \<times> (string \<times> click_cmd) list" where
  "extract_group L fps cmd_obj commands =
     (case extract_members L fps [] commands of
        (Inl e, commands') \<Rightarrow> (Inl e, commands')
      | (Inr class_dict, commands') \<Rightarrow>
          (case extract_all_params (c_params cmd_obj) of
             Inl e \<Rightarrow> (Inl e, commands')
           | Inr x \<Rightarrow>
               (Inr (Group_method
                       \<lparr>m_name = c_name cmd_obj, m_doc = c_help cmd_obj, m_sig = x\<rparr>
                       class_dict),
                commands')))"
| "extract_members L fps class_dict [] = (Inr class_dict, [])"
| "extract_members L fps class_dict ((key, Group sub subs) # rest) =
     (case extract_group L fps sub subs of
        (Inl e, subs') \<Rightarrow> (Inl e, (key, Group sub subs') # rest)
      | (Inr m, subs') \<Rightarrow>
          (case extract_members L fps (od_set (c_name sub) m class_dict) rest of
             (r, rest') \<Rightarrow> (r, (key, Group sub subs') # rest')))"
| "extract_members L fps class_dict ((key, Command sub) # rest) =
     (case extract_command L sub fps of
        (Inl e, sub') \<Rightarrow> (Inl e, (key, Command sub') # rest)
      | (Inr m, sub') \<Rightarrow>
          (case extract_members L fps (od_set (c_name sub') m class_dict) rest of
             (r, rest') \<Rightarrow> (r, (key, Command sub') # rest')))"
| "extract_members L fps class_dict ((key, OtherCommand n) # rest) =
     (Inl (cannot_handle n), (key, OtherCommand n) # rest)"

text \<open>
  What \<open>from_cli\<close> returns: the root callable, closed over the flow file's name, the flow
  class found in it and the parameters of the CLI collection.  Finding the flow class
  in the file and \<open>add_decorator_options\<close> are the work of collaborators: the flow class
  is an argument, and the collection is taken as it is after the decorator options were
  added.
\<close>

record root_method =
  r_flow_file :: string
  r_flow_cls :: "flow_cls option"
  r_info :: method_info

definition from_cli :: "string \<Rightarrow> flow_cls option \<Rightarrow> command_obj \<Rightarrow> error + root_method" where
  "from_cli flow_file flow_cls cli_collection =
     (case extract_all_params (c_params cli_collection) of
        Inl e \<Rightarrow> Inl e
      | Inr x \<Rightarrow>
          Inr \<lparr>r_flow_file = flow_file, r_flow_cls = flow_cls,
               r_info = \<lparr>m_name = c_name cli_collection, m_doc = c_help cli_collection,
                          m_sig = x\<rparr>\<rparr>)"

text \<open>What a caller sees of a compiled callable: \<open>__name__\<close>, \<open>__doc__\<close>, the parameters of
  \<open>__signature__\<close>, \<open>__annotations__\<close> and \<open>__defaults__\<close>.\<close>

definition signature_of ::
  "method_info \<Rightarrow> string \<times> string option \<times> inspect_param list \<times> (string \<times> annotation) list \<times> pyval list"
  where
  "signature_of m =
     (m_name m, m_doc m, map snd (params_sigs (m_sig m)), x_annotations (m_sig m),
      map snd (x_defaults (m_sig m)))"

section \<open>Objects and calls\<close>

text \<open>
  The state of the program: the CLI collection handed to \<open>from_cli\<close> (a group: its own
  attributes and its sub-commands, which compilation changes) and the heap of API
  objects.
\<close>

record world =
  cli_obj :: command_obj
  cli_commands :: "(string \<times> click_cmd) list"
  heap :: "api_obj list"

text \<open>\<open>MetaflowAPI.__init__\<close>.\<close>

definition init_obj :: "api_class \<Rightarrow> nat option \<Rightarrow> flow_cls option \<Rightarrow> method_params \<Rightarrow> api_obj" where
  "init_obj cls parent flow_cls kwargs =
     \<lparr>o_class = cls, o_parent = parent, o_chain = [(API_NAME cls, store kwargs)],
      o_flow_cls = flow_cls, o_cached_computed_parameters = None, o_dict = []\<rparr>"

text \<open>
  Calling the root callable.  \<open>_method(_self, **kwargs)\<close> is called without an object;
  its parameter \<open>_self\<close> takes the last entry of \<open>__defaults__\<close>, and the call is a
  TypeError when there is none.  A keyword named \<open>_self\<close> is bound to that parameter and
  does not reach \<open>kwargs\<close>.  The result is the address of the new object.
\<close>

definition call_root ::
  "pylib \<Rightarrow> root_method \<Rightarrow> (string \<times> pyval) list \<Rightarrow> world \<Rightarrow> (error + nat) \<times> world" where
  "call_root L rm kwargs w =
     (if \<not> od_mem ''_self'' kwargs \<and> x_defaults (m_sig (r_info rm)) = [] then
        (Inl (TypeError_call ''missing 1 required positional argument: _self''), w)
      else
        (case sanity_check L (m_sig (r_info rm)) (filter (\<lambda>kv. fst kv \<noteq> ''_self'') kwargs) of
           Inl e \<Rightarrow> (Inl e, w)
         | Inr method_params \<Rightarrow>
             (Inr (length (heap w)),
              w\<lparr>heap := heap w @
                   [init_obj (Root_class (r_flow_file rm)) None (r_flow_cls rm)
                      method_params]\<rparr>)))"

datatype call_result = Obj nat | Tokens "pyval list"

text \<open>
  Calling a member on the object at address \<open>self\<close>: the \<open>_method\<close> of \<open>extract_group\<close>
  makes a new object whose parent is \<open>self\<close>; the \<open>_method\<close> of \<open>extract_command\<close> appends
  to the chain of \<open>self\<close> and serializes.  The object is already bound to \<open>_self\<close>, so a
  keyword of that name is a TypeError.  The result is \<open>None\<close> when \<open>execute\<close> does not
  return.
\<close>

definition call_method ::
  "pylib \<Rightarrow> api_method \<Rightarrow> nat \<Rightarrow> (string \<times> pyval) list \<Rightarrow> world \<Rightarrow>
   ((error + call_result) \<times> world) option" where
  "call_method L m self kwargs w =
     (if od_mem ''_self'' kwargs then
        Some (Inl (TypeError_call ''got multiple values for argument _self''), w)
      else
        (case m of
           Group_method info members \<Rightarrow>
             (case sanity_check L (m_sig info) kwargs of
                Inl e \<Rightarrow> Some (Inl e, w)
              | Inr method_params \<Rightarrow>
                  Some (Inr (Obj (length (heap w))),
                        w\<lparr>heap := heap w @
                             [init_obj (Group_class (m_name info) members) (Some self) None
                                method_params]\<rparr>))
         | Command_method info \<Rightarrow>
             (case sanity_check L (m_sig info) kwargs of
                Inl e \<Rightarrow> Some (Inl e, w)
              | Inr method_params \<Rightarrow>
                  (let ob = heap w ! self;
                       h1 = (heap w)[self := ob\<lparr>o_chain := o_chain ob @
                                                   [(m_name info, store method_params)]\<rparr>]
                   in case execute L h1 self of
                        None \<Rightarrow> None
                      | Some (components, h2) \<Rightarrow>
                          Some (Inr (Tokens components), w\<lparr>heap := h2\<rparr>)))))"

text \<open>
  \<open>_compute_flow_parameters\<close>.  \<open>param.init()\<close> acts on the collaborator's parameter
  object; the flow class lists its parameters as that call leaves them.
\<close>

fun compute_loop :: "flow_param list \<Rightarrow> (string \<times> flow_param) list \<Rightarrow> flow_param list" where
  "compute_loop cached [] = cached"
| "compute_loop cached ((n, param) # rest) =
     (if IS_CONFIG_PARAMETER param then compute_loop cached rest
      else compute_loop (cached @ [param]) rest)"

definition non_start_msg :: string where
  "non_start_msg =
     ''Computing flow-level parameters for a non start API. Please report to the Metaflow team.''"

definition compute_flow_parameters ::
  "nat \<Rightarrow> api_obj list \<Rightarrow> (error + flow_param list) \<times> api_obj list" where
  "compute_flow_parameters self h =
     (let ob = h ! self in
      case o_flow_cls ob of
        None \<Rightarrow> (Inl (RuntimeError non_start_msg), h)
      | Some flow_cls \<Rightarrow>
          if o_parent ob \<noteq> None then (Inl (RuntimeError non_start_msg), h)
          else
            (case o_cached_computed_parameters ob of
               Some cached \<Rightarrow> (Inr cached, h)
             | None \<Rightarrow>
                 (let cached = compute_loop [] flow_cls
                  in (Inr cached,
                      h[self := ob\<lparr>o_cached_computed_parameters := Some cached\<rparr>]))))"

text \<open>
  \<open>_lazy_load_command\<close> as \<open>from_cli\<close> installs it: on the CLI collection of the world and
  with the flow parameters named by \<open>_compute_flow_parameters\<close>, which it resolves first.
\<close>

definition lazy_load_command ::
  "pylib \<Rightarrow> nat \<Rightarrow> string \<Rightarrow> world \<Rightarrow> (error + api_method) \<times> world" where
  "lazy_load_command L self name w =
     (case compute_flow_parameters self (heap w) of
        (Inl e, h1) \<Rightarrow> (Inl e, w\<lparr>heap := h1\<rparr>)
      | (Inr flow_parameters, h1) \<Rightarrow>
          (case map_of (cli_commands w) name of
             None \<Rightarrow> (Inl AttributeError, w\<lparr>heap := h1\<rparr>)
           | Some (Group sub subs) \<Rightarrow>
               (case extract_group L flow_parameters sub subs of
                  (Inl e, subs') \<Rightarrow>
                    (Inl e, w\<lparr>cli_commands := od_set name (Group sub subs') (cli_commands w),
                              heap := h1\<rparr>)
                | (Inr result, subs') \<Rightarrow>
                    (Inr result,
                     w\<lparr>cli_commands := od_set name (Group sub subs') (cli_commands w),
                       heap := h1[self := (h1 ! self)\<lparr>o_dict :=
                                   od_set name result (o_dict (h1 ! self))\<rparr>]\<rparr>))
           | Some (Command sub) \<Rightarrow>
               (case extract_command L sub flow_parameters of
                  (Inl e, sub') \<Rightarrow>
                    (Inl e, w\<lparr>cli_commands := od_set name (Command sub') (cli_commands w),
                              heap := h1\<rparr>)
                | (Inr result, sub') \<Rightarrow>
                    (Inr result,
                     w\<lparr>cli_commands := od_set name (Command sub') (cli_commands w),
                       heap := h1[self := (h1 ! self)\<lparr>o_dict :=
                                   od_set name result (o_dict (h1 ! self))\<rparr>]\<rparr>))
           | Some (OtherCommand n) \<Rightarrow> (Inl (cannot_handle n), w\<lparr>heap := h1\<rparr>)))"

text \<open>
  Reading a member \<open>name\<close> of the object at \<open>self\<close>, for names other than the attributes
  that every \<open>MetaflowAPI\<close> object has: the instance dictionary first, then the members of
  a group class, then \<open>__getattr__\<close> of the root class.
\<close>

definition getattr_member ::
  "pylib \<Rightarrow> nat \<Rightarrow> string \<Rightarrow> world \<Rightarrow> (error + api_method) \<times> world" where
  "getattr_member L self name w =
     (let ob = heap w ! self in
      case map_of (o_dict ob) name of
        Some m \<Rightarrow> (Inr m, w)
      | None \<Rightarrow>
          (case o_class ob of
             Group_class n members \<Rightarrow>
               (case map_of members name of
                  Some m \<Rightarrow> (Inr m, w)
                | None \<Rightarrow> (Inl AttributeError, w))
           | Root_class flow_file \<Rightarrow> lazy_load_command L self name w))"

section \<open>A concrete library and the example of the program's main block\<close>

text \<open>
  An instance of the library functions for evaluation.  The type check follows the
  annotation on the modelled values: a bool is also an int, an int is accepted where a
  float is expected, of a list only the first element is checked (typeguard's default
  for collections), and every modelled value is a \<open>JSON\<close> value.  \<open>json.dumps\<close> and \<open>str\<close>
  of a list are right for strings that need no escape; \<open>click.Option\<close> derives the
  option's name from its single declaration.
\<close>

definition check_py_type :: "pyval \<Rightarrow> py_type \<Rightarrow> bool" where
  "check_py_type v t =
     (case t of
        T_str \<Rightarrow> (case v of PStr s \<Rightarrow> True | _ \<Rightarrow> False)
      | T_int \<Rightarrow> (case v of PInt i \<Rightarrow> True | PBool b \<Rightarrow> True | _ \<Rightarrow> False)
      | T_float \<Rightarrow> (case v of PInt i \<Rightarrow> True | PBool b \<Rightarrow> True | _ \<Rightarrow> False)
      | T_bool \<Rightarrow> (case v of PBool b \<Rightarrow> True | _ \<Rightarrow> False)
      | T_JSON \<Rightarrow> True
      | _ \<Rightarrow> False)"

definition check_list :: "pyval \<Rightarrow> py_type \<Rightarrow> bool" where
  "check_list v t =
     (case v of
        PList xs \<Rightarrow> (case xs of [] \<Rightarrow> True | x # rest \<Rightarrow> check_py_type x t)
      | _ \<Rightarrow> False)"

fun example_check_type :: "pyval \<Rightarrow> annotation \<Rightarrow> bool" where
  "example_check_type v (Plain t) = check_py_type v t"
| "example_check_type v (ListOf t) = check_list v t"
| "example_check_type v (OptionalOf t) = (v = PNone \<or> check_py_type v t)"
| "example_check_type v (OptionalListOf t) = (v = PNone \<or> check_list v t)"

fun example_json_dumps :: "pyval \<Rightarrow> string" where
  "example_json_dumps PNone = ''null''"
| "example_json_dumps (PBool b) = (if b then ''true'' else ''false'')"
| "example_json_dumps (PInt i) = int_str i"
| "example_json_dumps (PStr s) = [CHR 0x22] @ s @ [CHR 0x22]"
| "example_json_dumps (PList xs) = ''['' @ join '', '' (map example_json_dumps xs) @ '']''"

fun example_repr :: "pyval \<Rightarrow> string" where
  "example_repr PNone = ''None''"
| "example_repr (PBool b) = (if b then ''True'' else ''False'')"
| "example_repr (PInt i) = int_str i"
| "example_repr (PStr s) = [CHR 0x27] @ s @ [CHR 0x27]"
| "example_repr (PList xs) = ''['' @ join '', '' (map example_repr xs) @ '']''"

definition example_click_Option :: "string list \<Rightarrow> option_kwargs \<Rightarrow> click_param" where
  "example_click_Option decls kw =
     \<lparr>p_class = Option,
      p_name = map (\<lambda>c. if c = CHR ''-'' then CHR ''_'' else c) (strip_dash (hd decls)),
      p_opts = decls, p_secondary_opts = [],
      p_is_bool_flag = (kw_is_flag kw \<and> kw_type kw = BoolParamType),
      p_required = kw_required kw, p_multiple = kw_multiple kw, p_nargs = 1,
      p_type = kw_type kw, p_default = kw_default kw\<rparr>"

definition example_lib :: pylib where
  "example_lib =
     \<lparr>check_type = example_check_type, json_dumps = example_json_dumps,
      str_of_list = (\<lambda>xs. example_repr (PList xs)), click_Option = example_click_Option\<rparr>"

text \<open>An option \<open>--name\<close> and a positional argument, as click declares them.\<close>

definition opt :: "string \<Rightarrow> string \<Rightarrow> click_type \<Rightarrow> bool \<Rightarrow> bool \<Rightarrow> click_param" where
  "opt name decl ty required multiple =
     \<lparr>p_class = Option, p_name = name, p_opts = [decl], p_secondary_opts = [],
      p_is_bool_flag = False, p_required = required, p_multiple = multiple, p_nargs = 1,
      p_type = ty, p_default = PNone\<rparr>"

definition flag :: "string \<Rightarrow> string \<Rightarrow> string list \<Rightarrow> bool \<Rightarrow> click_param" where
  "flag name decl secondary required =
     \<lparr>p_class = Option, p_name = name, p_opts = [decl], p_secondary_opts = secondary,
      p_is_bool_flag = True, p_required = required, p_multiple = False, p_nargs = 1,
      p_type = BoolParamType, p_default = PBool False\<rparr>"

definition arg :: "string \<Rightarrow> click_type \<Rightarrow> bool \<Rightarrow> int \<Rightarrow> click_param" where
  "arg name ty required nargs =
     \<lparr>p_class = Argument, p_name = name, p_opts = [name], p_secondary_opts = [],
      p_is_bool_flag = False, p_required = required, p_multiple = False, p_nargs = nargs,
      p_type = ty, p_default = PNone\<rparr>"

text \<open>
  The chain of the end-to-end example: the root \<open>start\<close> declares \<open>--metadata\<close>, its leaf
  \<open>run\<close> declares \<open>--tags\<close>, \<open>--decospecs\<close> (both multiple) and \<open>--max-workers\<close>.
\<close>

definition start_obj :: command_obj where
  "start_obj =
     \<lparr>c_name = ''start'',
      c_params = [opt ''metadata'' ''--metadata'' StringParamType False False],
      has_flow_params = False, c_help = None\<rparr>"

definition run_obj_cmd :: command_obj where
  "run_obj_cmd =
     \<lparr>c_name = ''run'',
      c_params = [opt ''tags'' ''--tags'' StringParamType False True,
                  opt ''decospecs'' ''--decospecs'' StringParamType False True,
                  opt ''max_workers'' ''--max-workers'' IntParamType False False],
      has_flow_params = False, c_help = None\<rparr>"

definition example_world :: world where
  "example_world =
     \<lparr>cli_obj = start_obj, cli_commands = [(''run'', Command run_obj_cmd)], heap = []\<rparr>"

text \<open>\<open>obj.name(**kwargs)\<close>: reading the member, then calling it.\<close>

definition member_call ::
  "pylib \<Rightarrow> nat \<Rightarrow> string \<Rightarrow> (string \<times> pyval) list \<Rightarrow> world \<Rightarrow>
   ((error + call_result) \<times> world) option" where
  "member_call L self name kwargs w =
     (case getattr_member L self name w of
        (Inl e, w1) \<Rightarrow> Some (Inl e, w1)
      | (Inr m, w1) \<Rightarrow> call_method L m self kwargs w1)"

text \<open>
  \<open>from_cli(flow_file, start)\<close>, then \<open>api(**root_kwargs)\<close>, then the member \<open>name\<close> of the
  new object called with \<open>kwargs\<close>.
\<close>

definition root_then_member ::
  "pylib \<Rightarrow> string \<Rightarrow> flow_cls option \<Rightarrow> world \<Rightarrow> (string \<times> pyval) list \<Rightarrow> string \<Rightarrow>
   (string \<times> pyval) list \<Rightarrow> ((error + call_result) \<times> world) option" where
  "root_then_member L flow_file flow_cls w root_kwargs name kwargs =
     (case from_cli flow_file flow_cls (cli_obj w) of
        Inl e \<Rightarrow> Some (Inl e, w)
      | Inr api \<Rightarrow>
          (case call_root L api root_kwargs w of
             (Inl e, w1) \<Rightarrow> Some (Inl e, w1)
           | (Inr self, w1) \<Rightarrow> member_call L self name kwargs w1))"

text \<open>The signature compiled for a list of parameters whose types are all in the table
  (empty otherwise), the callable of the leaf \<open>run\<close>, and the world with one root object
  made by \<open>api()\<close> for the flow file \<open>../try.py\<close>.\<close>

definition compiled :: "click_param list \<Rightarrow> extracted" where
  "compiled params =
     (case extract_all_params params of
        Inr x \<Rightarrow> x
      | Inl e \<Rightarrow> \<lparr>params_sigs = [], possible_arg_params = [], possible_opt_params = [],
                    x_annotations = [], x_defaults = []\<rparr>)"

definition run_method :: api_method where
  "run_method =
     Command_method \<lparr>m_name = ''run'', m_doc = None, m_sig = compiled (c_params run_obj_cmd)\<rparr>"

text \<open>The root callable that \<open>from_cli\<close> returns for the flow file \<open>../try.py\<close>, a flow class
  without parameters and the collection \<open>start\<close>.\<close>

definition example_api :: root_method where
  "example_api =
     \<lparr>r_flow_file = ''../try.py'', r_flow_cls = Some [],
      r_info = \<lparr>m_name = ''start'', m_doc = None, m_sig = compiled (c_params start_obj)\<rparr>\<rparr>"

definition root_world :: world where
  "root_world =
     example_world\<lparr>heap :=
       [init_obj (Root_class ''../try.py'') None (Some []) \<lparr>mp_args = [], mp_options = []\<rparr>]\<rparr>"

text \<open>A flow class with one parameter and one config parameter, and a heap with a root
  object of that flow class and a group object below it.\<close>

definition alpha_param :: flow_param where
  "alpha_param =
     \<lparr>fp_name = ''alpha'', IS_CONFIG_PARAMETER = False,
      fp_kwargs = \<lparr>kw_type = IntParamType, kw_required = False, kw_multiple = False,
                   kw_is_flag = False, kw_default = PNone\<rparr>\<rparr>"

definition config_param :: flow_param where
  "config_param =
     \<lparr>fp_name = ''cfg'', IS_CONFIG_PARAMETER = True,
      fp_kwargs = \<lparr>kw_type = StringParamType, kw_required = False, kw_multiple = False,
                   kw_is_flag = False, kw_default = PNone\<rparr>\<rparr>"

definition example_flow :: flow_cls where
  "example_flow = [(''alpha'', alpha_param), (''cfg'', config_param)]"

definition flow_heap :: "api_obj list" where
  "flow_heap =
     [init_obj (Root_class ''../try.py'') None (Some example_flow)
        \<lparr>mp_args = [], mp_options = []\<rparr>,
      init_obj (Group_class ''kubernetes'' []) (Some 0) None
        \<lparr>mp_args = [], mp_options = []\<rparr>]"

text \<open>
  A CLI collection with the leaf \<open>run\<close> and the group \<open>kubernetes\<close>, which has the leaf
  \<open>step\<close>; the world after \<open>p = api(metadata="local")\<close>; and a heap with a root object and
  a group object below it, both with stored bindings.
\<close>

definition kubernetes_obj :: command_obj where
  "kubernetes_obj =
     \<lparr>c_name = ''kubernetes'',
      c_params = [opt ''image'' ''--image'' StringParamType False False],
      has_flow_params = False, c_help = None\<rparr>"

definition step_obj :: command_obj where
  "step_obj =
     \<lparr>c_name = ''step'', c_params = [arg ''step_name'' StringParamType True 1],
      has_flow_params = False, c_help = None\<rparr>"

definition kube_world :: world where
  "kube_world =
     \<lparr>cli_obj = start_obj,
      cli_commands =
        [(''run'', Command run_obj_cmd),
         (''kubernetes'', Group kubernetes_obj [(''step'', Command step_obj)])],
      heap =
        [init_obj (Root_class ''../try.py'') None (Some [])
           \<lparr>mp_args = [], mp_options = [(''metadata'', PStr ''local'')]\<rparr>]\<rparr>"


text \<open>The callable compiled for the group \<open>kubernetes\<close>.\<close>

definition kubernetes_method :: api_method where
  "kubernetes_method =
     Group_method
       \<lparr>m_name = ''kubernetes'', m_doc = None, m_sig = compiled (c_params kubernetes_obj)\<rparr>
       [(''step'',
         Command_method
           \<lparr>m_name = ''step'', m_doc = None, m_sig = compiled (c_params step_obj)\<rparr>)]"


section \<open>Notions used by the statements\<close>



definition pop_obj :: "api_obj \<Rightarrow> api_obj" where
  "pop_obj ob =
     ob\<lparr>o_chain := map (\<lambda>e. (fst e, \<lparr>sp_args = None, sp_options = None\<rparr>)) (o_chain ob)\<rparr>"

fun info_of :: "api_method \<Rightarrow> method_info" where
  "info_of (Group_method info members) = info"
| "info_of (Command_method info) = info"

text \<open>
  The CLI names under which the binder can store a value for a declaration:
  \<open>opts[0].strip("-")\<close>, and for a boolean flag also \<open>secondary_opts[0].strip("-")\<close>.
\<close>

definition cli_name :: "click_param \<Rightarrow> string" where
  "cli_name p = strip_dash (hd (p_opts p))"

definition secondary_names :: "click_param \<Rightarrow> string list" where
  "secondary_names p =
     (if p_is_bool_flag p then map strip_dash (take 1 (p_secondary_opts p)) else [])"

text \<open>
  A list of declarations as click builds it: the parameters have distinct names, each is
  an argument or an option and has a declared name, a boolean flag has the type \<open>bool\<close>,
  and the CLI names of all declarations, the secondary names of the boolean flags
  included, are distinct.
\<close>

definition wf_params :: "click_param list \<Rightarrow> bool" where
  "wf_params params =
     (distinct (map p_name params)
      \<and> list_all (\<lambda>p. p_class p \<noteq> OtherParameter \<and> p_opts p \<noteq> []
                    \<and> (if p_is_bool_flag p then p_type p = BoolParamType else True)) params
      \<and> distinct (map cli_name params @ concat (map secondary_names params)))"

text \<open>The CLI names under which the kwargs loop can store the value supplied for the
  key \<open>k\<close>.\<close>

definition store_names ::
  "(string \<times> click_param) list \<Rightarrow> (string \<times> click_param) list \<Rightarrow> string \<Rightarrow> string list" where
  "store_names arg_ps opt_ps k =
     (case map_of arg_ps k of
        Some p \<Rightarrow> [cli_name p]
      | None \<Rightarrow>
          (case map_of opt_ps k of
             Some p \<Rightarrow> cli_name p # secondary_names p
           | None \<Rightarrow> []))"

text \<open>The possible parameters of a compiled callable, and the loop over the kwargs
  supplied to it.\<close>

definition possible_of :: "extracted \<Rightarrow> (string \<times> click_param) list" where
  "possible_of x = possible_params_of (possible_arg_params x) (possible_opt_params x)"

definition bind_supplied_x ::
  "pylib \<Rightarrow> extracted \<Rightarrow> (string \<times> pyval) list \<Rightarrow> error + method_params \<times> string option" where
  "bind_supplied_x L x kwargs =
     bind_supplied L (possible_arg_params x) (possible_opt_params x) (x_annotations x)
       (x_defaults x) kwargs"

text \<open>Declarations used to evaluate the binder: a required option that has a default, a
  required boolean flag without a negative spelling, a required boolean flag with one,
  an optional boolean flag, an option that takes several values and a required
  positional argument.\<close>

definition workers_opt :: click_param where
  "workers_opt = (opt ''workers'' ''--workers'' IntParamType True False)\<lparr>p_default := PInt 5\<rparr>"

definition confirm_flag :: click_param where
  "confirm_flag = flag ''confirm'' ''--confirm'' [] True"

definition force_required :: click_param where
  "force_required = flag ''force'' ''--force'' [''--no-force''] True"

definition force_flag :: click_param where
  "force_flag = flag ''force'' ''--force'' [''--no-force''] False"

definition tags_opt :: click_param where
  "tags_opt = opt ''tags'' ''--tags'' StringParamType False True"

definition name_arg :: click_param where
  "name_arg = arg ''name'' StringParamType True 1"

text \<open>
  A CLI collection with the leaf \<open>deploy\<close>, whose flag \<open>--force/--no-force\<close> is required,
  and the leaf \<open>tag\<close> with \<open>--tags\<close> (multiple) and the optional flag
  \<open>--force/--no-force\<close>; the world holds the root object made by \<open>api()\<close>.
\<close>

definition deploy_obj :: command_obj where
  "deploy_obj =
     \<lparr>c_name = ''deploy'', c_params = [force_required], has_flow_params = False,
      c_help = None\<rparr>"

definition tag_obj :: command_obj where
  "tag_obj =
     \<lparr>c_name = ''tag'', c_params = [tags_opt, force_flag], has_flow_params = False,
      c_help = None\<rparr>"

definition flags_world :: world where
  "flags_world =
     \<lparr>cli_obj = start_obj,
      cli_commands = [(''deploy'', Command deploy_obj), (''tag'', Command tag_obj)],
      heap =
        [init_obj (Root_class ''../try.py'') None (Some [])
           \<lparr>mp_args = [], mp_options = []\<rparr>]\<rparr>"

text \<open>\<open>extract_all_params\<close> followed by \<open>_method_sanity_check\<close>: what a compiled callable of
  a command with these parameters does with the kwargs.\<close>

definition bind_params ::
  "pylib \<Rightarrow> click_param list \<Rightarrow> (string \<times> pyval) list \<Rightarrow> error + method_params" where
  "bind_params L params kwargs =
     (case extract_all_params params of
        Inl e \<Rightarrow> Inl e
      | Inr x \<Rightarrow> sanity_check L x kwargs)"

section \<open>Basic facts\<close>

lemma od_mem_Nil [simp]: "\<not> od_mem k []"
  by (simp add: od_mem_def od_keys_def)

lemma od_mem_Cons [simp]: "od_mem k (x # d) = (k = fst x \<or> od_mem k d)"
  by (auto simp: od_mem_def od_keys_def)

lemma od_mem_od_set [simp]: "od_mem k' (od_set k v d) = (k' = k \<or> od_mem k' d)"
  by (induction d) (auto split: if_splits)

lemma od_set_fresh: "\<not> od_mem k d \<Longrightarrow> od_set k v d = d @ [(k, v)]"
  by (induction d) auto

lemma od_mem_od_update [simp]: "od_mem k (od_update d xs) = (od_mem k d \<or> od_mem k xs)"
  unfolding od_update_def
  by (induction xs arbitrary: d) (auto split: prod.splits)

lemma od_mem_possible [simp]:
  "od_mem k (possible_params_of arg_ps opt_ps) = (od_mem k arg_ps \<or> od_mem k opt_ps)"
  by (simp add: possible_params_of_def)

lemma map_of_od_mem: "map_of d k = Some v \<Longrightarrow> od_mem k d"
  by (induction d) (auto split: if_splits)

lemma bind_loop_append:
  "bind_loop L pp a o' anns defs st (xs @ ys) =
     (case bind_loop L pp a o' anns defs st xs of
        Inl e \<Rightarrow> Inl e
      | Inr st' \<Rightarrow> bind_loop L pp a o' anns defs st' ys)"
  by (induction xs arbitrary: st) (auto split: sum.splits)

lemma missing_msg_inject [simp]: "(missing_msg a = missing_msg b) = (a = b)"
  by (simp add: missing_msg_def)

lemma unknown_not_missing [simp]: "unknown_msg k names \<noteq> missing_msg n"
  by (simp add: unknown_msg_def missing_msg_def)

lemma check_required_find:
  "list_all (\<lambda>nq. p_opts (snd nq) \<noteq> []) pp \<Longrightarrow>
   check_required pp mp =
     (case find (\<lambda>nq. p_required (snd nq)
                   \<and> \<not> od_mem (strip_dash (hd (p_opts (snd nq)))) (mp_args mp)
                   \<and> \<not> od_mem (strip_dash (hd (p_opts (snd nq)))) (mp_options mp)) pp of
        None \<Rightarrow> Inr ()
      | Some nq \<Rightarrow> Inl (ValueError (missing_msg (strip_dash (hd (p_opts (snd nq)))))))"
proof (induction pp)
  case Nil
  then show ?case by simp
next
  case (Cons a pp)
  obtain n q where a: "a = (n, q)" by (cases a)
  from Cons.prems a obtain d ds where q: "p_opts q = d # ds"
    by (cases "p_opts q") auto
  from Cons a q show ?case
    by (auto simp: opts0_def)
qed

lemma check_required_missing:
  "check_required pp mp = Inl (ValueError (missing_msg n)) \<Longrightarrow>
   \<not> od_mem n (mp_args mp) \<and> \<not> od_mem n (mp_options mp)"
proof (induction pp)
  case Nil
  then show ?case by simp
next
  case (Cons a pp)
  obtain m q where a: "a = (m, q)" by (cases a)
  from Cons a show ?case
    by (auto simp: opts0_def split: list.splits if_splits)
qed

lemma bind_kwarg_not_missing:
  "bind_kwarg L pp a o' anns defs st kv \<noteq> Inl (ValueError (missing_msg n))"
  by (auto simp: bind_kwarg_def Let_def opts0_def
      split: option.splits if_splits list.splits sum.splits)

lemma bind_loop_not_missing:
  "bind_loop L pp a o' anns defs st kwargs \<noteq> Inl (ValueError (missing_msg n))"
proof (induction kwargs arbitrary: st)
  case Nil
  then show ?case by simp
next
  case (Cons kv kwargs)
  then show ?case
    using bind_kwarg_not_missing [of L pp a o' anns defs st kv n]
    by (auto split: sum.splits)
qed

lemma bind_kwarg_keeps:
  assumes "bind_kwarg L pp a o' anns defs (mp, c) kv = Inr (mp', c')"
  shows "(od_mem n (mp_args mp) \<longrightarrow> od_mem n (mp_args mp'))
       \<and> (od_mem n (mp_options mp) \<longrightarrow> od_mem n (mp_options mp'))"
  using assms
  by (auto simp: bind_kwarg_def Let_def opts0_def
      split: option.splits if_splits list.splits sum.splits)

lemma bind_loop_keeps:
  "bind_loop L pp a o' anns defs (mp, c) kwargs = Inr (mp', c') \<Longrightarrow>
   (od_mem n (mp_args mp) \<longrightarrow> od_mem n (mp_args mp'))
   \<and> (od_mem n (mp_options mp) \<longrightarrow> od_mem n (mp_options mp'))"
proof (induction kwargs arbitrary: mp c)
  case Nil
  then show ?case by simp
next
  case (Cons kv kwargs)
  from Cons.prems obtain mp1 c1 where
    s1: "bind_kwarg L pp a o' anns defs (mp, c) kv = Inr (mp1, c1)"
    and s2: "bind_loop L pp a o' anns defs (mp1, c1) kwargs = Inr (mp', c')"
    by (auto split: sum.splits)
  from bind_kwarg_keeps [OF s1, of n] Cons.IH [OF s2] show ?case by blast
qed

lemma bind_kwarg_binds:
  assumes "bind_kwarg L pp arg_ps opt_ps anns defs (mp, c) (k, v) = Inr (mp', c')"
    and "p_opts p = decl # others"
    and "map_of arg_ps k = Some p
         \<or> (map_of arg_ps k = None \<and> map_of opt_ps k = Some p
             \<and> (\<not> p_is_bool_flag p \<or> (v = PBool True \<and> map_of anns k = Some ann \<and> ann \<noteq> JSON)))"
  shows "od_mem (strip_dash decl) (mp_args mp') \<or> od_mem (strip_dash decl) (mp_options mp')"
  using assms
  by (auto simp: bind_kwarg_def Let_def opts0_def
      split: option.splits if_splits list.splits sum.splits)

lemma bind_loop_binds:
  assumes "bind_loop L pp arg_ps opt_ps anns defs (mp, c) kwargs = Inr (mp', c')"
    and "(k, v) \<in> set kwargs"
    and "p_opts p = decl # others"
    and "map_of arg_ps k = Some p
         \<or> (map_of arg_ps k = None \<and> map_of opt_ps k = Some p
             \<and> (\<not> p_is_bool_flag p \<or> (v = PBool True \<and> map_of anns k = Some ann \<and> ann \<noteq> JSON)))"
  shows "od_mem (strip_dash decl) (mp_args mp') \<or> od_mem (strip_dash decl) (mp_options mp')"
  using assms(1,2)
proof (induction kwargs arbitrary: mp c)
  case Nil
  then show ?case by simp
next
  case (Cons kv kwargs)
  from Cons.prems(1) obtain mp1 c1 where
    s1: "bind_kwarg L pp arg_ps opt_ps anns defs (mp, c) kv = Inr (mp1, c1)"
    and s2: "bind_loop L pp arg_ps opt_ps anns defs (mp1, c1) kwargs = Inr (mp', c')"
    by (auto split: sum.splits)
  show ?case
  proof (cases "kv = (k, v)")
    case True
    with s1 have "od_mem (strip_dash decl) (mp_args mp1) \<or> od_mem (strip_dash decl) (mp_options mp1)"
      using bind_kwarg_binds [OF _ assms(3,4)] by blast
    with bind_loop_keeps [OF s2, of "strip_dash decl"] show ?thesis by blast
  next
    case False
    with Cons.prems(2) have "(k, v) \<in> set kwargs" by simp
    from Cons.IH [OF s2 this] show ?thesis .
  qed
qed

lemma bind_loop_unknown_fails:
  "(k, v) \<in> set kwargs \<Longrightarrow> \<not> od_mem k pp \<Longrightarrow>
   \<exists>e. bind_loop L pp a o' anns defs st kwargs = Inl e"
proof (induction kwargs arbitrary: st)
  case Nil
  then show ?case by simp
next
  case (Cons kv kwargs)
  show ?case
  proof (cases "bind_kwarg L pp a o' anns defs st kv")
    case (Inl e)
    then show ?thesis by simp
  next
    case (Inr st')
    have "kv \<noteq> (k, v)"
    proof
      assume "kv = (k, v)"
      with Inr Cons.prems(2) show False
        by (simp add: bind_kwarg_def Let_def)
    qed
    with Cons.prems(1) have "(k, v) \<in> set kwargs" by auto
    from Cons.IH [OF this Cons.prems(2), of st'] Inr show ?thesis by simp
  qed
qed

lemma bind_loop_first_unknown:
  "bind_loop L pp a o' anns defs st pre = Inr st' \<Longrightarrow> \<not> od_mem k pp \<Longrightarrow>
   bind_loop L pp a o' anns defs st (pre @ (k, v) # post) =
     Inl (ValueError (unknown_msg k (od_keys pp)))"
  by (simp add: bind_loop_append bind_kwarg_def Let_def)

lemma od_keys_possible:
  "set (od_keys (possible_params_of a o')) = set (od_keys a) \<union> set (od_keys o')"
proof (rule set_eqI)
  fix k
  have "od_mem k (possible_params_of a o') = (od_mem k a \<or> od_mem k o')" by simp
  then show "(k \<in> set (od_keys (possible_params_of a o')))
             = (k \<in> set (od_keys a) \<union> set (od_keys o'))"
    by (simp add: od_mem_def)
qed

lemma compute_loop_filter:
  "compute_loop cached fc = cached @ filter (\<lambda>p. \<not> IS_CONFIG_PARAMETER p) (map snd fc)"
  by (induction fc arbitrary: cached) auto

lemma run_method_is_compiled:
  "getattr_member example_lib 0 ''run'' root_world
     = (Inr run_method,
        root_world\<lparr>heap := [(heap root_world ! 0)\<lparr>o_cached_computed_parameters := Some [],
                                 o_dict := [(''run'', run_method)]\<rparr>]\<rparr>)"
  by code_simp

subsection \<open>Calls and member access\<close>

lemma example_api_from_cli:
  "from_cli ''../try.py'' (Some []) start_obj = Inr example_api"
  by code_simp

lemma map_of_od_set_same [simp]: "map_of (od_set k v d) k = Some v"
  by (induction d) auto

lemma map_update_same:
  "i < length h \<Longrightarrow> f x = f (h ! i) \<Longrightarrow> map f (h[i := x]) = map f h"
  by (simp add: map_update list_update_same_conv)

lemma compute_flow_parameters_frame:
  assumes "self < length h" and "compute_flow_parameters self h = (r, h1)"
  shows "length h1 = length h \<and> map o_chain h1 = map o_chain h \<and> map o_dict h1 = map o_dict h
       \<and> map o_parent h1 = map o_parent h \<and> map o_class h1 = map o_class h"
  using assms
  by (auto simp: compute_flow_parameters_def Let_def map_update_same
      split: option.splits if_splits)

lemma getattr_member_frame:
  assumes "self < length (heap w)" and "getattr_member L self name w = (r, w1)"
  shows "length (heap w1) = length (heap w) \<and> map o_chain (heap w1) = map o_chain (heap w)
       \<and> map o_parent (heap w1) = map o_parent (heap w)"
proof (cases "map_of (o_dict (heap w ! self)) name")
  case (Some m')
  with assms(2) show ?thesis by (auto simp: getattr_member_def Let_def)
next
  case None
  obtain r0 h1 where c: "compute_flow_parameters self (heap w) = (r0, h1)"
    by (cases "compute_flow_parameters self (heap w)")
  note fr = compute_flow_parameters_frame [OF assms(1) c]
  from assms None c fr show ?thesis
    by (auto simp: getattr_member_def lazy_load_command_def Let_def map_update_same
        split: sum.splits option.splits click_cmd.splits prod.splits api_class.splits)
qed

lemma filter_no_self:
  "\<not> od_mem ''_self'' kwargs \<Longrightarrow> filter (\<lambda>kv. fst kv \<noteq> ''_self'') kwargs = kwargs"
  by (induction kwargs) auto

lemma sanity_check_unknown_fails:
  assumes "(k, v) \<in> set kwargs" and "\<not> od_mem k (possible_of x)"
  shows "\<exists>e. sanity_check L x kwargs = Inl e"
proof -
  obtain e where "bind_supplied L (possible_arg_params x) (possible_opt_params x)
                  (x_annotations x) (x_defaults x) kwargs = Inl e"
    using bind_loop_unknown_fails [OF assms(1)] assms(2)
    unfolding bind_supplied_def possible_of_def by blast
  then show ?thesis
    by (simp add: sanity_check_def method_sanity_check_def)
qed

lemma sanity_check_first_unknown:
  assumes "bind_supplied_x L x pre = Inr st" and "\<not> od_mem k (possible_of x)"
  shows "sanity_check L x (pre @ (k, v) # post)
         = Inl (ValueError (unknown_msg k (od_keys (possible_of x))))"
proof -
  have "bind_supplied L (possible_arg_params x) (possible_opt_params x)
                  (x_annotations x) (x_defaults x) (pre @ (k, v) # post)
             = Inl (ValueError (unknown_msg k (od_keys (possible_of x))))"
    using bind_loop_first_unknown assms
    unfolding bind_supplied_def bind_supplied_x_def possible_of_def by blast
  then show ?thesis
    by (simp add: sanity_check_def method_sanity_check_def)
qed

subsection \<open>The dictionaries of a well-formed declaration list\<close>

lemma od_update_Cons: "od_update d ((k, v) # xs) = od_update (od_set k v d) xs"
  by (simp add: od_update_def)

lemma od_update_Nil [simp]: "od_update d [] = d"
  by (simp add: od_update_def)

lemma od_update_fresh:
  "distinct (map fst xs) \<Longrightarrow> \<forall>k \<in> set (map fst xs). \<not> od_mem k d \<Longrightarrow> od_update d xs = d @ xs"
proof (induction xs arbitrary: d)
  case Nil
  then show ?case by simp
next
  case (Cons kv xs)
  obtain k v where kv: "kv = (k, v)" by (cases kv)
  have "od_update (od_set k v d) xs = od_set k v d @ xs"
    using Cons.prems kv by (intro Cons.IH) auto
  with Cons.prems kv show ?case
    by (simp add: od_update_Cons od_set_fresh)
qed

lemma extract_one_eq:
  "extract_one s p =
     (case get_annotation p of
        Inl e \<Rightarrow> Inl e
      | Inr a \<Rightarrow>
          Inr (s\<lparr>arg_params_sigs :=
                   (if p_class p = Argument
                    then od_set (p_name p)
                           \<lparr>ip_name = p_name p, ip_kind = POSITIONAL_ONLY,
                            ip_default = p_default p, ip_annotation = a\<rparr> (arg_params_sigs s)
                    else arg_params_sigs s),
                 opt_params_sigs :=
                   (if p_class p = Option
                    then od_set (p_name p)
                           \<lparr>ip_name = p_name p, ip_kind = KEYWORD_ONLY,
                            ip_default = p_default p, ip_annotation = a\<rparr> (opt_params_sigs s)
                    else opt_params_sigs s),
                 arg_parameters :=
                   (if p_class p = Argument then od_set (p_name p) p (arg_parameters s)
                    else arg_parameters s),
                 opt_parameters :=
                   (if p_class p = Option then od_set (p_name p) p (opt_parameters s)
                    else opt_parameters s),
                 annotations := od_set (p_name p) a (annotations s),
                 defaults := od_set (p_name p) (p_default p) (defaults s)\<rparr>))"
  by (cases "p_class p"; cases "get_annotation p")
    (simp_all add: extract_one_def get_inspect_param_obj_def)

lemma extract_loop_fields:
  "extract_loop s ps = Inr s' \<Longrightarrow>
   arg_parameters s' =
     od_update (arg_parameters s) (map (\<lambda>p. (p_name p, p)) (filter (\<lambda>p. p_class p = Argument) ps))
   \<and> opt_parameters s' =
     od_update (opt_parameters s) (map (\<lambda>p. (p_name p, p)) (filter (\<lambda>p. p_class p = Option) ps))
   \<and> annotations s' =
     od_update (annotations s) (map (\<lambda>p. (p_name p, projr (get_annotation p))) ps)
   \<and> defaults s' = od_update (defaults s) (map (\<lambda>p. (p_name p, p_default p)) ps)"
proof (induction ps arbitrary: s)
  case Nil
  then show ?case by simp
next
  case (Cons p ps)
  from Cons.prems obtain s1 where s1: "extract_one s p = Inr s1" "extract_loop s1 ps = Inr s'"
    by (auto split: sum.splits)
  from s1(1) obtain a where a: "get_annotation p = Inr a"
    by (auto simp: extract_one_eq split: sum.splits)
  from Cons.IH [OF s1(2)] s1(1) a show ?case
    by (auto simp: extract_one_eq od_update_Cons)
qed


lemma od_mem_map_name [simp]:
  "od_mem k (map (\<lambda>p. (p_name p, f p)) ps) = (k \<in> p_name ` set ps)"
  by (auto simp: od_mem_def od_keys_def)

lemma map_of_named:
  "distinct (map p_name ps) \<Longrightarrow> p \<in> set ps \<Longrightarrow>
   map_of (map (\<lambda>p. (p_name p, f p)) ps) (p_name p) = Some (f p)"
  by (induction ps) (auto simp: rev_image_eqI)

lemma map_of_named_Some:
  "map_of (map (\<lambda>p. (p_name p, p)) ps) k = Some q \<Longrightarrow> q \<in> set ps \<and> p_name q = k"
  by (induction ps) (auto split: if_splits)

lemma map_of_named_None:
  "k \<notin> p_name ` set ps \<Longrightarrow> map_of (map (\<lambda>p. (p_name p, f p)) ps) k = None"
  by (induction ps) auto

lemma extract_all_params_wf:
  assumes "distinct (map p_name params)" and "extract_all_params params = Inr x"
  shows "possible_arg_params x
           = map (\<lambda>p. (p_name p, p)) (filter (\<lambda>p. p_class p = Argument) params)"
    and "possible_opt_params x
           = map (\<lambda>p. (p_name p, p)) (filter (\<lambda>p. p_class p = Option) params)"
    and "x_annotations x = map (\<lambda>p. (p_name p, projr (get_annotation p))) params"
    and "\<forall>p \<in> set params. \<exists>a. get_annotation p = Inr a"
proof -
  from assms(2) obtain s where s: "extract_loop extract_init params = Inr s"
    and x: "possible_arg_params x = arg_parameters s" "possible_opt_params x = opt_parameters s"
      "x_annotations x = annotations s"
    by (auto simp: extract_all_params_def split: sum.splits)
  note f = extract_loop_fields [OF s]
  have d: "distinct (map fst (map (\<lambda>p. (p_name p, g p)) (filter P params)))" for g :: "click_param \<Rightarrow> 'a" and P
    using assms(1) by (simp add: comp_def distinct_map_filter)
  show "possible_arg_params x
           = map (\<lambda>p. (p_name p, p)) (filter (\<lambda>p. p_class p = Argument) params)"
    using f x d [of "\<lambda>p. p" "\<lambda>p. p_class p = Argument"]
    by (simp add: extract_init_def od_update_fresh)
  show "possible_opt_params x
           = map (\<lambda>p. (p_name p, p)) (filter (\<lambda>p. p_class p = Option) params)"
    using f x d [of "\<lambda>p. p" "\<lambda>p. p_class p = Option"]
    by (simp add: extract_init_def od_update_fresh)
  show "x_annotations x = map (\<lambda>p. (p_name p, projr (get_annotation p))) params"
    using f x d [of "\<lambda>p. projr (get_annotation p)" "\<lambda>p. True"]
    by (simp add: extract_init_def od_update_fresh)
  have "extract_loop s0 ps = Inr s1 \<Longrightarrow> \<forall>p \<in> set ps. \<exists>a. get_annotation p = Inr a" for s0 ps s1
    by (induction ps arbitrary: s0) (auto simp: extract_one_eq split: sum.splits)
  from this [OF s] show "\<forall>p \<in> set params. \<exists>a. get_annotation p = Inr a" .
qed

lemma possible_params_of_wf:
  assumes "distinct (map p_name params)"
  shows "possible_params_of
           (map (\<lambda>p. (p_name p, p)) (filter (\<lambda>p. p_class p = Argument) params))
           (map (\<lambda>p. (p_name p, p)) (filter (\<lambda>p. p_class p = Option) params))
         = map (\<lambda>p. (p_name p, p))
             (filter (\<lambda>p. p_class p = Argument) params @ filter (\<lambda>p. p_class p = Option) params)"
proof -
  let ?A = "filter (\<lambda>p. p_class p = Argument) params"
  let ?O = "filter (\<lambda>p. p_class p = Option) params"
  have dA: "distinct (map fst (map (\<lambda>p. (p_name p, p)) ?A))"
    and dO: "distinct (map fst (map (\<lambda>p. (p_name p, p)) ?O))"
    using assms by (simp_all add: comp_def distinct_map_filter)
  have inj: "inj_on p_name (set params)"
    using assms by (simp add: distinct_map)
  have disj: "\<forall>k \<in> set (map fst (map (\<lambda>p. (p_name p, p)) ?O)).
                \<not> od_mem k (map (\<lambda>p. (p_name p, p)) ?A)"
  proof (clarsimp)
    fix p q assume "p \<in> set params" "p_class p = Option" "q \<in> set params"
      "p_class q = Argument" "p_name p = p_name q"
    with inj have "p = q" by (auto dest: inj_onD)
    with \<open>p_class p = Option\<close> \<open>p_class q = Argument\<close> show False by simp
  qed
  have "od_update [] (map (\<lambda>p. (p_name p, p)) ?A) = map (\<lambda>p. (p_name p, p)) ?A"
    using od_update_fresh [OF dA, of "[]"] by simp
  then show ?thesis
    using od_update_fresh [OF dO disj] by (simp add: possible_params_of_def)
qed

subsection \<open>The names the kwargs loop stores under\<close>

lemma bind_kwarg_names:
  assumes "bind_kwarg L pp arg_ps opt_ps anns defs (mp, c) (k, v) = Inr (mp', c')"
    and "od_mem n (mp_args mp') \<or> od_mem n (mp_options mp') \<or> c' = Some n"
  shows "od_mem n (mp_args mp) \<or> od_mem n (mp_options mp) \<or> c = Some n
         \<or> n \<in> set (store_names arg_ps opt_ps k)"
  using assms
  by (auto simp: bind_kwarg_def Let_def opts0_def store_names_def cli_name_def
      secondary_names_def take_Suc
      split: option.splits if_splits list.splits sum.splits)

lemma bind_loop_names:
  assumes "bind_loop L pp arg_ps opt_ps anns defs (mp, c) kwargs = Inr (mp', c')"
    and "od_mem n (mp_args mp') \<or> od_mem n (mp_options mp') \<or> c' = Some n"
  shows "od_mem n (mp_args mp) \<or> od_mem n (mp_options mp) \<or> c = Some n
         \<or> (\<exists>k. od_mem k kwargs \<and> n \<in> set (store_names arg_ps opt_ps k))"
  using assms
proof (induction kwargs arbitrary: mp c)
  case Nil
  then show ?case by simp
next
  case (Cons kv kwargs)
  obtain k v where kv: "kv = (k, v)" by (cases kv)
  from Cons.prems(1) obtain mp1 c1 where
    s1: "bind_kwarg L pp arg_ps opt_ps anns defs (mp, c) (k, v) = Inr (mp1, c1)"
    and s2: "bind_loop L pp arg_ps opt_ps anns defs (mp1, c1) kwargs = Inr (mp', c')"
    by (auto simp: kv split: sum.splits)
  from Cons.IH [OF s2 Cons.prems(2)]
  consider "od_mem n (mp_args mp1) \<or> od_mem n (mp_options mp1) \<or> c1 = Some n"
    | "\<exists>k. od_mem k kwargs \<and> n \<in> set (store_names arg_ps opt_ps k)"
    by blast
  then show ?case
  proof cases
    case 1
    from bind_kwarg_names [OF s1 1] show ?thesis
      using kv by auto
  next
    case 2
    then show ?thesis by auto
  qed
qed


lemma find_map_named:
  "find P (map f xs) = map_option f (find (\<lambda>x. P (f x)) xs)"
  by (induction xs) auto

lemma get_annotation_bool_not_JSON:
  "get_annotation p = Inr a \<Longrightarrow> p_type p = BoolParamType \<Longrightarrow> a \<noteq> JSON"
  by (auto simp: get_annotation_def JSON_def Optional_def split: if_splits)

lemma bound_iff_supplied:
  assumes wf: "wf_params params" and ex: "extract_all_params params = Inr x"
    and ok: "bind_supplied_x L x kwargs = Inr (mp, c)"
    and fl: "list_all (\<lambda>kv. list_all (\<lambda>p. if p_name p = fst kv \<and> p_is_bool_flag p \<and> p_required p
                                         then snd kv = PBool True else True) params) kwargs"
    and p: "p \<in> set params" and req: "p_required p"
  shows "(od_mem (cli_name p) (mp_args mp) \<or> od_mem (cli_name p) (mp_options mp))
         = od_mem (p_name p) kwargs"
proof -
  let ?A = "filter (\<lambda>p. p_class p = Argument) params"
  let ?O = "filter (\<lambda>p. p_class p = Option) params"
  let ?args = "map (\<lambda>p. (p_name p, p)) ?A"
  let ?opts = "map (\<lambda>p. (p_name p, p)) ?O"
  from wf have dn: "distinct (map p_name params)"
    and la: "\<forall>p \<in> set params. p_class p \<noteq> OtherParameter \<and> p_opts p \<noteq> []
               \<and> (p_is_bool_flag p \<longrightarrow> p_type p = BoolParamType)"
    and dc: "distinct (map cli_name params @ concat (map secondary_names params))"
    by (auto simp: wf_params_def list_all_iff split: if_splits)
  note e = extract_all_params_wf [OF dn ex]
  have inj: "inj_on p_name (set params)" using dn by (simp add: distinct_map)
  have injc: "inj_on cli_name (set params)" using dc by (simp add: distinct_map)
  have sec: "cli_name q \<notin> set (secondary_names r)" if "q \<in> set params" "r \<in> set params" for q r
    using dc that by auto
  from ok have b: "bind_loop L (possible_params_of ?args ?opts) ?args ?opts (x_annotations x)
      (x_defaults x) (\<lparr>mp_args = [], mp_options = []\<rparr>, None) kwargs = Inr (mp, c)"
    by (simp add: bind_supplied_x_def bind_supplied_def e(1,2))
  show ?thesis
  proof
    assume bd: "od_mem (cli_name p) (mp_args mp) \<or> od_mem (cli_name p) (mp_options mp)"
    then have "od_mem (cli_name p) (mp_args mp) \<or> od_mem (cli_name p) (mp_options mp)
        \<or> c = Some (cli_name p)" by blast
    from bind_loop_names [OF b this] obtain k where
      k: "od_mem k kwargs" "cli_name p \<in> set (store_names ?args ?opts k)"
      by auto
    have "k = p_name p"
    proof (cases "map_of ?args k")
      case (Some q)
      then have q: "q \<in> set params" "p_name q = k"
        using map_of_named_Some [OF Some] by auto
      from k(2) Some have "cli_name p = cli_name q" by (simp add: store_names_def)
      with injc p q(1) have "p = q" by (auto dest: inj_onD)
      with q(2) show ?thesis by simp
    next
      case None
      show ?thesis
      proof (cases "map_of ?opts k")
        case (Some q)
        then have q: "q \<in> set params" "p_name q = k"
          using map_of_named_Some [OF Some] by auto
        from k(2) None Some have "cli_name p = cli_name q \<or> cli_name p \<in> set (secondary_names q)"
          by (simp add: store_names_def)
        with sec [OF p q(1)] have "cli_name p = cli_name q" by blast
        with injc p q(1) have "p = q" by (auto dest: inj_onD)
        with q(2) show ?thesis by simp
      next
        case None2: None
        with None k(2) show ?thesis by (simp add: store_names_def)
      qed
    qed
    with k(1) show "od_mem (p_name p) kwargs" by simp
  next
    assume "od_mem (p_name p) kwargs"
    then obtain v where v: "(p_name p, v) \<in> set kwargs"
      by (auto simp: od_mem_def od_keys_def)
    from la p obtain decl others where o: "p_opts p = decl # others"
      by (cases "p_opts p") auto
    from la p have cls: "p_class p = Argument \<or> p_class p = Option"
      by (cases "p_class p") auto
    from e(4) p obtain a where a: "get_annotation p = Inr a" by blast
    have an: "map_of (x_annotations x) (p_name p) = Some a"
      using map_of_named [OF dn p, of "\<lambda>p. projr (get_annotation p)"] a by (simp add: e(3))
    have cond: "map_of ?args (p_name p) = Some p
         \<or> (map_of ?args (p_name p) = None \<and> map_of ?opts (p_name p) = Some p
             \<and> (\<not> p_is_bool_flag p
                 \<or> (v = PBool True \<and> map_of (x_annotations x) (p_name p) = Some a \<and> a \<noteq> JSON)))"
    proof (cases "p_class p = Argument")
      case True
      then have "p \<in> set ?A" using p by simp
      moreover have "distinct (map p_name ?A)" using dn by (simp add: distinct_map_filter)
      ultimately show ?thesis using map_of_named [of ?A p "\<lambda>p. p"] by simp
    next
      case False
      with cls have op: "p_class p = Option" by simp
      then have pO: "p \<in> set ?O" using p by simp
      have dO: "distinct (map p_name ?O)" using dn by (simp add: distinct_map_filter)
      have "p_name p \<notin> p_name ` set ?A"
      proof
        assume "p_name p \<in> p_name ` set ?A"
        then obtain q where q: "q \<in> set params" "p_class q = Argument" "p_name q = p_name p"
          by auto
        with inj p have "q = p" by (auto dest: inj_onD)
        with q(2) op show False by simp
      qed
      then have n: "map_of ?args (p_name p) = None" by (rule map_of_named_None)
      have s: "map_of ?opts (p_name p) = Some p"
        using map_of_named [OF dO pO, of "\<lambda>p. p"] by simp
      show ?thesis
      proof (cases "p_is_bool_flag p")
        case False
        with n s show ?thesis by simp
      next
        case True
        with fl v p req have "v = PBool True"
          by (auto simp: list_all_iff split: if_splits)
        moreover from la p True have "p_type p = BoolParamType" by simp
        with a have "a \<noteq> JSON" by (rule get_annotation_bool_not_JSON)
        ultimately show ?thesis using n s an by simp
      qed
    qed
    from bind_loop_binds [OF b v o cond]
    show "od_mem (cli_name p) (mp_args mp) \<or> od_mem (cli_name p) (mp_options mp)"
      using o by (simp add: cli_name_def)
  qed
qed

subsection \<open>Heaps and serialization\<close>







lemma length_fold_pop [simp]:
  "length (fold (\<lambda>i h. h[i := pop_obj (h ! i)]) ids h) = length h"
  by (induction ids arbitrary: h) auto



lemma pop_obj_idem [simp]: "pop_obj (pop_obj ob) = pop_obj ob"
  by (simp add: pop_obj_def comp_def)

lemma o_parent_pop_obj [simp]: "o_parent (pop_obj ob) = o_parent ob"
  by (simp add: pop_obj_def)





lemma kubernetes_method_is_compiled:
  "fst (getattr_member example_lib 0 ''kubernetes'' kube_world) = Inr kubernetes_method"
  by code_simp

section \<open>The end-to-end example\<close>

text \<open>
  C1 (as the code has it).  The root callable is invoked with \<open>metadata="local"\<close> and the
  leaf \<open>run\<close> with \<open>tags=["abc","def"]\<close>, \<open>decospecs=["kubernetes"]\<close>, \<open>max_workers=5\<close>.
  The chain entry of the root object is stored under the root's \<open>_API_NAME\<close>, the flow
  file handed to \<open>from_cli\<close>, and \<open>execute\<close> emits the name of every entry: the tokens are
  the flow file's name, then the root's flags, then the leaf's name, then the leaf's
  flags.
\<close>

theorem C1_end_to_end_tokens:
  "map_option fst
     (root_then_member example_lib flow_file (Some flow_cls) example_world
        [(''metadata'', PStr ''local'')] ''run''
        [(''tags'', PList [PStr ''abc'', PStr ''def'']),
         (''decospecs'', PList [PStr ''kubernetes'']),
         (''max_workers'', PInt 5)])
   = Some (Inr (Tokens
       [PStr flow_file, PStr ''--metadata'', PStr ''local'', PStr ''run'',
        PStr ''--tags'', PStr ''abc'', PStr ''--tags'', PStr ''def'',
        PStr ''--decospecs'', PStr ''kubernetes'', PStr ''--max-workers'', PStr ''5'']))"
  by code_simp

text \<open>
  C1 as stated fails: with the flow file \<open>../try.py\<close> of the program's main block the
  token sequence is not the one that starts with \<open>--metadata\<close>.
\<close>

theorem C1_counterexample:
  "map_option fst
     (root_then_member example_lib ''../try.py'' (Some []) example_world
        [(''metadata'', PStr ''local'')] ''run''
        [(''tags'', PList [PStr ''abc'', PStr ''def'']),
         (''decospecs'', PList [PStr ''kubernetes'']),
         (''max_workers'', PInt 5)])
   \<noteq> Some (Inr (Tokens
       [PStr ''--metadata'', PStr ''local'', PStr ''run'',
        PStr ''--tags'', PStr ''abc'', PStr ''--tags'', PStr ''def'',
        PStr ''--decospecs'', PStr ''kubernetes'', PStr ''--max-workers'', PStr ''5'']))"
  by code_simp

section \<open>Boolean flags\<close>

text \<open>
  C4.  Boolean flag polarity: supplying true for a boolean flag emits only the primary
  flag token, supplying false emits only the secondary flag token when the flag has a
  secondary name, and nothing when it has none.  The code misses this for a flag that
  is declared required.  For the leaf \<open>deploy\<close> with the required flag
  \<open>--force/--no-force\<close>, the call \<open>deploy(force=False)\<close> stores the marker under the
  secondary name \<open>no-force\<close> in the loop over the kwargs, and the loop over the possible
  parameters then looks for the primary name \<open>force\<close>, does not find it and raises the
  Missing error, so that no token is emitted; \<open>deploy(force=True)\<close> emits \<open>--force\<close>.
\<close>

theorem C4_required_flag_supplied_false:
  "map_option fst
     (member_call example_lib 0 ''deploy'' [(''force'', PBool False)] flags_world)
     = Some (Inl (ValueError ''Missing argument: force is required.''))
   \<and> bind_supplied_x example_lib (compiled (c_params deploy_obj)) [(''force'', PBool False)]
     = Inr (\<lparr>mp_args = [], mp_options = [(''no-force'', PStr ''flag'')]\<rparr>, Some ''no-force'')
   \<and> map_option fst
     (member_call example_lib 0 ''deploy'' [(''force'', PBool True)] flags_world)
     = Some (Inr (Tokens [PStr ''../try.py'', PStr ''deploy'', PStr ''--force'']))"
  by code_simp

section \<open>Multiple values\<close>

text \<open>
  C5.  Multiplicity: a multi-value flag supplied N values serializes to N pairs of
  \<open>--name\<close> and the value, in the order supplied.  The code loses the values when a
  boolean flag is supplied \<open>None\<close> after them.  For the leaf \<open>tag\<close> with \<open>--tags\<close> (multiple)
  and the optional flag \<open>--force/--no-force\<close>, whose annotation \<open>Optional[bool]\<close> admits
  \<open>None\<close>, the call \<open>tag(tags=["a","b","c"], force=None)\<close> takes neither branch of the
  flag, so that \<open>cli_name\<close> still holds \<open>tags\<close> from the round before and the marker is
  stored over the three values: the call serializes to the single token \<open>--tags\<close> after
  the names.  Without \<open>force=None\<close> the three pairs are emitted.
\<close>

theorem C5_values_lost_after_none_flag:
  "check_type example_lib PNone (OptionalOf T_bool)
   \<and> map_option fst
     (member_call example_lib 0 ''tag''
        [(''tags'', PList [PStr ''a'', PStr ''b'', PStr ''c'']), (''force'', PNone)] flags_world)
     = Some (Inr (Tokens [PStr ''../try.py'', PStr ''tag'', PStr ''--tags'']))
   \<and> map_option fst
     (member_call example_lib 0 ''tag''
        [(''tags'', PList [PStr ''a'', PStr ''b'', PStr ''c''])] flags_world)
     = Some (Inr (Tokens [PStr ''../try.py'', PStr ''tag'', PStr ''--tags'', PStr ''a'',
                          PStr ''--tags'', PStr ''b'', PStr ''--tags'', PStr ''c'']))"
  by code_simp

section \<open>Required parameters\<close>

text \<open>
  C6 (as the code has it).  Required enforcement.  Let the declarations be a list as
  click builds it (\<open>wf_params\<close>), let the loop over the supplied kwargs end without error,
  and let no required boolean flag be supplied a value other than \<open>True\<close>.  Then the
  binding fails with the Missing error exactly when some declaration marked required
  has no supplied value, whether it has a default or not; the error names the first such
  declaration, positional declarations before flags and each in declaration order, by
  its CLI name.  When every required declaration has a supplied value, whatever the
  value and whether it equals the default or not, the binding succeeds.
\<close>

theorem C6_required_enforcement:
  assumes "wf_params params" and "extract_all_params params = Inr x"
    and "bind_supplied_x L x kwargs = Inr (mp, c)"
    and "list_all (\<lambda>kv. list_all (\<lambda>p. if p_name p = fst kv \<and> p_is_bool_flag p \<and> p_required p
                                        then snd kv = PBool True else True) params) kwargs"
  shows "sanity_check L x kwargs =
           (case find (\<lambda>p. p_required p \<and> \<not> od_mem (p_name p) kwargs)
                   (filter (\<lambda>p. p_class p = Argument) params
                      @ filter (\<lambda>p. p_class p = Option) params) of
              None \<Rightarrow> Inr mp
            | Some p \<Rightarrow> Inl (ValueError (missing_msg (cli_name p))))"
proof -
  let ?ps = "filter (\<lambda>p. p_class p = Argument) params @ filter (\<lambda>p. p_class p = Option) params"
  let ?Q = "\<lambda>p. p_required p \<and> \<not> od_mem (cli_name p) (mp_args mp)
                \<and> \<not> od_mem (cli_name p) (mp_options mp)"
  from assms(1) have dn: "distinct (map p_name params)"
    and la: "\<forall>p \<in> set params. p_opts p \<noteq> []"
    by (auto simp: wf_params_def list_all_iff)
  note e = extract_all_params_wf [OF dn assms(2)]
  have pp: "possible_params_of (possible_arg_params x) (possible_opt_params x)
            = map (\<lambda>p. (p_name p, p)) ?ps"
    unfolding e(1,2) by (rule possible_params_of_wf [OF dn])
  have ne: "list_all (\<lambda>nq. p_opts (snd nq) \<noteq> []) (map (\<lambda>p. (p_name p, p)) ?ps)"
    using la by (auto simp: list_all_iff)
  have fnd: "find ?Q ?ps = find (\<lambda>p. p_required p \<and> \<not> od_mem (p_name p) kwargs) ?ps"
  proof (rule find_cong [OF refl])
    fix p assume "p \<in> set ?ps"
    then have p: "p \<in> set params" by auto
    show "?Q p = (p_required p \<and> \<not> od_mem (p_name p) kwargs)"
      using bound_iff_supplied [OF assms p] by blast
  qed
  have "check_required (map (\<lambda>p. (p_name p, p)) ?ps) mp =
          (case find ?Q ?ps of
             None \<Rightarrow> Inr ()
           | Some p \<Rightarrow> Inl (ValueError (missing_msg (cli_name p))))"
    unfolding check_required_find [OF ne] find_map_named
    by (simp add: cli_name_def split: option.splits)
  then show ?thesis
    using assms(3)
    by (simp add: sanity_check_def method_sanity_check_def bind_supplied_x_def pp fnd
        split: option.splits)
qed

theorem C6_witness:
  "sanity_check example_lib (compiled [name_arg, workers_opt, force_flag])
     [(''workers'', PInt 5)]
     = Inl (ValueError (missing_msg ''name''))
   \<and> sanity_check example_lib (compiled [name_arg, workers_opt, force_flag])
     [(''name'', PStr ''x''), (''workers'', PInt 5)]
     = Inr \<lparr>mp_args = [(''name'', PStr ''x'')], mp_options = [(''workers'', PInt 5)]\<rparr>"
proof -
  have w: "wf_params [name_arg, workers_opt, force_flag]"
    by code_simp
  have x: "extract_all_params [name_arg, workers_opt, force_flag]
      = Inr (compiled [name_arg, workers_opt, force_flag])"
    by code_simp
  have b1: "bind_supplied_x example_lib (compiled [name_arg, workers_opt, force_flag])
      [(''workers'', PInt 5)]
      = Inr (\<lparr>mp_args = [], mp_options = [(''workers'', PInt 5)]\<rparr>, Some ''workers'')"
    by code_simp
  have b2: "bind_supplied_x example_lib (compiled [name_arg, workers_opt, force_flag])
      [(''name'', PStr ''x''), (''workers'', PInt 5)]
      = Inr (\<lparr>mp_args = [(''name'', PStr ''x'')], mp_options = [(''workers'', PInt 5)]\<rparr>,
             Some ''workers'')"
    by code_simp
  have f1: "list_all (\<lambda>kv. list_all (\<lambda>p. if p_name p = fst kv \<and> p_is_bool_flag p \<and> p_required p
                                        then snd kv = PBool True else True)
       [name_arg, workers_opt, force_flag]) [(''workers'', PInt 5)]"
    by code_simp
  have f2: "list_all (\<lambda>kv. list_all (\<lambda>p. if p_name p = fst kv \<and> p_is_bool_flag p \<and> p_required p
                                        then snd kv = PBool True else True)
       [name_arg, workers_opt, force_flag]) [(''name'', PStr ''x''), (''workers'', PInt 5)]"
    by code_simp
  have c1: "(case find (\<lambda>p. p_required p \<and> \<not> od_mem (p_name p) [(''workers'', PInt 5)])
                   (filter (\<lambda>p. p_class p = Argument) [name_arg, workers_opt, force_flag]
                      @ filter (\<lambda>p. p_class p = Option) [name_arg, workers_opt, force_flag]) of
              None \<Rightarrow> Inr \<lparr>mp_args = [], mp_options = [(''workers'', PInt 5)]\<rparr>
            | Some p \<Rightarrow> Inl (ValueError (missing_msg (cli_name p))))
          = Inl (ValueError (missing_msg ''name''))"
    by code_simp
  have c2: "(case find (\<lambda>p. p_required p
                    \<and> \<not> od_mem (p_name p) [(''name'', PStr ''x''), (''workers'', PInt 5)])
                   (filter (\<lambda>p. p_class p = Argument) [name_arg, workers_opt, force_flag]
                      @ filter (\<lambda>p. p_class p = Option) [name_arg, workers_opt, force_flag]) of
              None \<Rightarrow> Inr \<lparr>mp_args = [(''name'', PStr ''x'')],
                            mp_options = [(''workers'', PInt 5)]\<rparr>
            | Some p \<Rightarrow> Inl (ValueError (missing_msg (cli_name p))))
          = Inr \<lparr>mp_args = [(''name'', PStr ''x'')], mp_options = [(''workers'', PInt 5)]\<rparr>"
    by code_simp
  from C6_required_enforcement [OF w x b1 f1] c1 C6_required_enforcement [OF w x b2 f2] c2
  show ?thesis by simp
qed

text \<open>
  C6 as stated fails twice.  A required option with the usable default 5 and no
  supplied value fails with the Missing error; and a required boolean flag without a
  secondary name that is supplied \<open>False\<close>, a value of its declared type \<open>bool\<close>, fails
  with the Missing error naming it.
\<close>

theorem C6_counterexample:
  "p_required workers_opt \<and> p_default workers_opt = PInt 5
   \<and> bind_params example_lib [workers_opt] []
       = Inl (ValueError ''Missing argument: workers is required.'')
   \<and> p_required confirm_flag \<and> get_annotation confirm_flag = Inr (Plain T_bool)
   \<and> check_type example_lib (PBool False) (Plain T_bool)
   \<and> bind_params example_lib [confirm_flag] [(''confirm'', PBool False)]
       = Inl (ValueError ''Missing argument: confirm is required.'')"
  by code_simp

section \<open>Unknown keys\<close>

text \<open>
  C7 (as the code has it).  Unknown-key rejection.  Let a compiled callable be called
  with kwargs none of which is named \<open>_self\<close> (the callable's own first parameter), and let
  some supplied key \<open>k\<close> match no possible parameter of the callable.  Then the call
  fails and changes nothing: a member call (group or leaf) on any object, and the root
  callable as well, return an error and the state they were called in, so no object is
  made and no chain grows.  The kwargs are bound in the order supplied, so the error is
  that of the first kwarg that fails: it is the Unknown error for \<open>k\<close> when the kwargs
  before \<open>k\<close> bind without error (for the root callable the collection must declare a
  parameter at all; otherwise the root callable cannot be called), and its message ends
  with the names of all possible parameters, which are the names of the positional and
  of the flag declarations.  For \<open>obj.name(**kwargs)\<close>, where the member is read first, the
  call fails in the state the read has left, in which the objects and their chains are
  those from before the read.
\<close>

theorem C7_unknown_key_rejected:
  assumes "(k, v) \<in> set kwargs" and "\<not> od_mem ''_self'' kwargs"
  shows
   "(\<not> od_mem k (possible_of (m_sig (info_of m))) \<longrightarrow>
       (\<exists>e. call_method L m self kwargs w = Some (Inl e, w))
       \<and> (\<forall>pre post st.
             kwargs = pre @ (k, v) # post
             \<and> bind_supplied_x L (m_sig (info_of m)) pre = Inr st \<longrightarrow>
             call_method L m self kwargs w =
               Some (Inl (ValueError
                      (''Unknown argument: '' @ [CHR 0x27] @ k @ [CHR 0x27]
                         @ '', possible args are: ''
                         @ join '', '' (od_keys (possible_of (m_sig (info_of m)))))), w)))
    \<and> (\<not> od_mem k (possible_of (m_sig (r_info rm))) \<longrightarrow>
       (\<exists>e. call_root L rm kwargs w = (Inl e, w))
       \<and> (\<forall>pre post st.
             x_defaults (m_sig (r_info rm)) \<noteq> [] \<and> kwargs = pre @ (k, v) # post
             \<and> bind_supplied_x L (m_sig (r_info rm)) pre = Inr st \<longrightarrow>
             call_root L rm kwargs w =
               (Inl (ValueError
                      (''Unknown argument: '' @ [CHR 0x27] @ k @ [CHR 0x27]
                         @ '', possible args are: ''
                         @ join '', '' (od_keys (possible_of (m_sig (r_info rm)))))), w)))
    \<and> (\<forall>name m1 w1.
          self < length (heap w) \<and> getattr_member L self name w = (Inr m1, w1)
          \<and> \<not> od_mem k (possible_of (m_sig (info_of m1))) \<longrightarrow>
          (\<exists>e. member_call L self name kwargs w = Some (Inl e, w1))
          \<and> length (heap w1) = length (heap w)
          \<and> map o_chain (heap w1) = map o_chain (heap w))
    \<and> (\<forall>x. set (od_keys (possible_of x)) =
            set (od_keys (possible_arg_params x)) \<union> set (od_keys (possible_opt_params x)))"
proof (intro conjI allI impI)
  assume u: "\<not> od_mem k (possible_of (m_sig (info_of m)))"
  from sanity_check_unknown_fails [OF assms(1) u, of L]
  show "\<exists>e. call_method L m self kwargs w = Some (Inl e, w)"
    using assms(2) by (cases m) (auto simp: call_method_def)
next
  fix pre post st
  assume u: "\<not> od_mem k (possible_of (m_sig (info_of m)))"
    and h: "kwargs = pre @ (k, v) # post \<and> bind_supplied_x L (m_sig (info_of m)) pre = Inr st"
  from h sanity_check_first_unknown [OF _ u, of L pre st v post]
  have "sanity_check L (m_sig (info_of m)) kwargs
        = Inl (ValueError (unknown_msg k (od_keys (possible_of (m_sig (info_of m))))))"
    by simp
  then show "call_method L m self kwargs w =
               Some (Inl (ValueError
                      (''Unknown argument: '' @ [CHR 0x27] @ k @ [CHR 0x27]
                         @ '', possible args are: ''
                         @ join '', '' (od_keys (possible_of (m_sig (info_of m)))))), w)"
    using assms(2) by (cases m) (auto simp: call_method_def unknown_msg_def)
next
  assume u: "\<not> od_mem k (possible_of (m_sig (r_info rm)))"
  from sanity_check_unknown_fails [OF assms(1) u, of L]
  show "\<exists>e. call_root L rm kwargs w = (Inl e, w)"
    using assms(2) by (auto simp: call_root_def filter_no_self)
next
  fix pre post st
  assume u: "\<not> od_mem k (possible_of (m_sig (r_info rm)))"
    and h: "x_defaults (m_sig (r_info rm)) \<noteq> [] \<and> kwargs = pre @ (k, v) # post
             \<and> bind_supplied_x L (m_sig (r_info rm)) pre = Inr st"
  from h sanity_check_first_unknown [OF _ u, of L pre st v post]
  have "sanity_check L (m_sig (r_info rm)) kwargs
        = Inl (ValueError (unknown_msg k (od_keys (possible_of (m_sig (r_info rm))))))"
    by simp
  then show "call_root L rm kwargs w =
               (Inl (ValueError
                      (''Unknown argument: '' @ [CHR 0x27] @ k @ [CHR 0x27]
                         @ '', possible args are: ''
                         @ join '', '' (od_keys (possible_of (m_sig (r_info rm)))))), w)"
    using filter_no_self [OF assms(2)] conjunct1 [OF h]
    by (simp add: call_root_def unknown_msg_def)
next
  fix name m1 w1
  assume h: "self < length (heap w) \<and> getattr_member L self name w = (Inr m1, w1)
          \<and> \<not> od_mem k (possible_of (m_sig (info_of m1)))"
  then have u: "\<not> od_mem k (possible_of (m_sig (info_of m1)))" by simp
  from sanity_check_unknown_fails [OF assms(1) u, of L]
  have "\<exists>e. call_method L m1 self kwargs w1 = Some (Inl e, w1)"
    using assms(2) by (cases m1) (auto simp: call_method_def)
  with h show "\<exists>e. member_call L self name kwargs w = Some (Inl e, w1)"
    by (simp add: member_call_def)
  from h getattr_member_frame [of self w L name "Inr m1" w1]
  show "length (heap w1) = length (heap w)" by simp
  from h getattr_member_frame [of self w L name "Inr m1" w1]
  show "map o_chain (heap w1) = map o_chain (heap w)" by simp
next
  fix x
  show "set (od_keys (possible_of x)) =
            set (od_keys (possible_arg_params x)) \<union> set (od_keys (possible_opt_params x))"
    by (simp add: possible_of_def od_keys_possible)
qed

theorem C7_witness:
  "call_method example_lib run_method 0
     [(''tags'', PList [PStr ''abc'']), (''bogus'', PInt 1)] root_world
   = Some (Inl (ValueError
         (''Unknown argument: '' @ [CHR 0x27] @ ''bogus'' @ [CHR 0x27]
            @ '', possible args are: tags, decospecs, max_workers'')), root_world)
   \<and> call_root example_lib example_api [(''bogus'', PInt 1)] example_world
   = (Inl (ValueError
         (''Unknown argument: '' @ [CHR 0x27] @ ''bogus'' @ [CHR 0x27]
            @ '', possible args are: metadata'')), example_world)
   \<and> (\<exists>e. member_call example_lib 0 ''run'' [(''bogus'', PInt 1)] root_world
          = Some (Inl e, snd (getattr_member example_lib 0 ''run'' root_world)))
   \<and> map o_chain (heap (snd (getattr_member example_lib 0 ''run'' root_world)))
       = map o_chain (heap root_world)"
proof -
  have k1: "\<not> od_mem ''bogus'' (possible_of (m_sig (info_of run_method)))"
    by code_simp
  have k2: "\<not> od_mem ''bogus'' (possible_of (m_sig (r_info example_api)))"
    by code_simp
  have m1: "(''bogus'', PInt 1) \<in> set [(''tags'', PList [PStr ''abc'']), (''bogus'', PInt 1)]"
    and m2: "(''bogus'', PInt 1) \<in> set [(''bogus'', PInt 1)]"
    by simp_all
  have s1: "\<not> od_mem ''_self'' [(''tags'', PList [PStr ''abc'']), (''bogus'', PInt 1)]"
    and s2: "\<not> od_mem ''_self'' [(''bogus'', PInt 1)]"
    by simp_all
  have b1: "bind_supplied_x example_lib (m_sig (info_of run_method))
       [(''tags'', PList [PStr ''abc''])]
     = Inr (\<lparr>mp_args = [], mp_options = [(''tags'', PList [PStr ''abc''])]\<rparr>, Some ''tags'')"
    by code_simp
  have b2: "bind_supplied_x example_lib (m_sig (r_info example_api)) []
     = Inr (\<lparr>mp_args = [], mp_options = []\<rparr>, None)"
    by code_simp
  have j1: "join '', '' (od_keys (possible_of (m_sig (info_of run_method))))
       = ''tags, decospecs, max_workers''"
    by code_simp
  have j2: "join '', '' (od_keys (possible_of (m_sig (r_info example_api)))) = ''metadata''"
    by code_simp
  have d2: "x_defaults (m_sig (r_info example_api)) \<noteq> []"
    by code_simp
  have a1: "[(''tags'', PList [PStr ''abc'']), (''bogus'', PInt 1)]
      = [(''tags'', PList [PStr ''abc''])] @ (''bogus'', PInt 1) # []"
    and a2: "[(''bogus'', PInt 1)] = [] @ (''bogus'', PInt 1) # []"
    by simp_all
  have g: "getattr_member example_lib 0 ''run'' root_world
      = (Inr run_method, snd (getattr_member example_lib 0 ''run'' root_world))"
    by (simp add: run_method_is_compiled)
  have l: "(0::nat) < length (heap root_world)"
    by (simp add: root_world_def)
  note t1 = C7_unknown_key_rejected [OF m1 s1, of run_method example_lib 0 root_world example_api]
  note t2 = C7_unknown_key_rejected [OF m2 s2, of run_method example_lib 0 example_world
      example_api]
  note t3 = C7_unknown_key_rejected [OF m2 s2, of run_method example_lib 0 root_world example_api]
  have c1: "call_method example_lib run_method 0
     [(''tags'', PList [PStr ''abc'']), (''bogus'', PInt 1)] root_world
   = Some (Inl (ValueError
         (''Unknown argument: '' @ [CHR 0x27] @ ''bogus'' @ [CHR 0x27]
            @ '', possible args are: tags, decospecs, max_workers'')), root_world)"
    using conjunct2 [OF mp [OF conjunct1 [OF t1] k1], rule_format, OF conjI [OF a1 b1]]
    unfolding j1 by simp
  have c2: "call_root example_lib example_api [(''bogus'', PInt 1)] example_world
   = (Inl (ValueError
         (''Unknown argument: '' @ [CHR 0x27] @ ''bogus'' @ [CHR 0x27]
            @ '', possible args are: metadata'')), example_world)"
    using conjunct2 [OF mp [OF conjunct1 [OF conjunct2 [OF t2]] k2], rule_format,
        OF conjI [OF d2 conjI [OF a2 b2]]]
    unfolding j2 by simp
  from conjunct1 [OF conjunct2 [OF conjunct2 [OF t3]], rule_format,
      OF conjI [OF l conjI [OF g k1]]]
  have c3: "(\<exists>e. member_call example_lib 0 ''run'' [(''bogus'', PInt 1)] root_world
          = Some (Inl e, snd (getattr_member example_lib 0 ''run'' root_world)))
     \<and> map o_chain (heap (snd (getattr_member example_lib 0 ''run'' root_world)))
       = map o_chain (heap root_world)"
    by blast
  from c1 c2 c3 show ?thesis by blast
qed

text \<open>
  C7 as stated fails: in the example chain, \<open>run(tags=5, bogus=1)\<close> has the unknown key
  \<open>bogus\<close>, and the call fails with the TypeError for \<open>tags\<close>, which is checked first.
\<close>

theorem C7_counterexample:
  "map_option fst
     (root_then_member example_lib ''../try.py'' (Some []) example_world [] ''run''
        [(''tags'', PInt 5), (''bogus'', PInt 1)])
   = Some (Inl (TypeError ''tags'' (OptionalListOf T_str) PNone))"
  by code_simp

section \<open>Sibling chains\<close>




section \<open>Serialization\<close>




section \<open>Flow-level parameters of the root\<close>

text \<open>
  C9.  Root-level parameter computation.  On an object without a flow class or with a
  parent, \<open>_compute_flow_parameters\<close> fails with the RuntimeError and changes nothing.  On
  a root whose cache is empty, it returns the flow class's parameters that are not
  config parameters, stores them in the cache of that object and changes nothing else,
  and the next call returns the same list from the same state.  On a root whose cache is
  filled, it returns the cache and changes nothing.  A new object starts with an empty
  cache: nothing is computed before the first call.
\<close>

theorem C9_flow_parameters_cached:
  assumes "self < length h"
  shows "(o_flow_cls (h ! self) = None \<or> o_parent (h ! self) \<noteq> None \<longrightarrow>
            compute_flow_parameters self h = (Inl (RuntimeError non_start_msg), h))
       \<and> (\<forall>fc. o_flow_cls (h ! self) = Some fc \<and> o_parent (h ! self) = None
              \<and> o_cached_computed_parameters (h ! self) = None \<longrightarrow>
            (\<exists>h1. compute_flow_parameters self h
                    = (Inr (filter (\<lambda>p. \<not> IS_CONFIG_PARAMETER p) (map snd fc)), h1)
                 \<and> h1 = h[self := (h ! self)\<lparr>o_cached_computed_parameters :=
                            Some (filter (\<lambda>p. \<not> IS_CONFIG_PARAMETER p) (map snd fc))\<rparr>]
                 \<and> compute_flow_parameters self h1
                    = (Inr (filter (\<lambda>p. \<not> IS_CONFIG_PARAMETER p) (map snd fc)), h1)))
       \<and> (\<forall>fc cached. o_flow_cls (h ! self) = Some fc \<and> o_parent (h ! self) = None
              \<and> o_cached_computed_parameters (h ! self) = Some cached \<longrightarrow>
            compute_flow_parameters self h = (Inr cached, h))
       \<and> o_cached_computed_parameters (init_obj cls parent flow_cls kwargs) = None"
  using assms
  by (auto simp: compute_flow_parameters_def Let_def compute_loop_filter init_obj_def
      split: option.splits)

theorem C9_witness:
  "compute_flow_parameters 1 flow_heap = (Inl (RuntimeError non_start_msg), flow_heap)
   \<and> fst (compute_flow_parameters 0 flow_heap) = Inr [alpha_param]
   \<and> compute_flow_parameters 0 (snd (compute_flow_parameters 0 flow_heap))
       = (Inr [alpha_param], snd (compute_flow_parameters 0 flow_heap))"
proof -
  have l1: "(1::nat) < length flow_heap" and l0: "(0::nat) < length flow_heap"
    by (simp_all add: flow_heap_def)
  have a: "compute_flow_parameters 1 flow_heap = (Inl (RuntimeError non_start_msg), flow_heap)"
    using conjunct1 [OF C9_flow_parameters_cached [OF l1]]
    by (simp add: flow_heap_def init_obj_def)
  have r: "o_flow_cls (flow_heap ! 0) = Some example_flow \<and> o_parent (flow_heap ! 0) = None
      \<and> o_cached_computed_parameters (flow_heap ! 0) = None"
    by (simp add: flow_heap_def init_obj_def)
  have f: "filter (\<lambda>p. \<not> IS_CONFIG_PARAMETER p) (map snd example_flow) = [alpha_param]"
    by (simp add: example_flow_def alpha_param_def config_param_def)
  from conjunct1 [OF conjunct2 [OF C9_flow_parameters_cached [OF l0]], rule_format, OF r]
  obtain h1 where
    "compute_flow_parameters 0 flow_heap = (Inr [alpha_param], h1)"
    "compute_flow_parameters 0 h1 = (Inr [alpha_param], h1)"
    unfolding f by blast
  with a show ?thesis by simp
qed

section \<open>Member access on the root\<close>

text \<open>
  C10 (as the code has it).  Member access on an existing root object, for a name that
  is not an attribute of the object or of its class.  When the name is not yet in the
  instance dictionary and matches no child command of the CLI collection: on a root that
  has a flow class and no parent the access raises AttributeError and returns no
  callable, and every object's chain and instance dictionary and the command tree are
  as before (the flow parameters are computed and cached by this access); on an object
  without a flow class the access raises the RuntimeError of \<open>_compute_flow_parameters\<close>
  instead and changes nothing.  A successful access stores the callable on the instance:
  the next access of the same name returns the same callable and changes nothing, and no
  chain is changed by either.
\<close>

theorem C10_member_access:
  assumes "self < length (heap w)"
    and "o_class (heap w ! self) = Root_class flow_file"
  shows "(map_of (cli_commands w) name = None \<and> map_of (o_dict (heap w ! self)) name = None \<longrightarrow>
            (if o_flow_cls (heap w ! self) \<noteq> None \<and> o_parent (heap w ! self) = None
             then \<exists>w'. getattr_member L self name w = (Inl AttributeError, w')
                    \<and> map o_chain (heap w') = map o_chain (heap w)
                    \<and> map o_dict (heap w') = map o_dict (heap w)
                    \<and> cli_commands w' = cli_commands w
             else getattr_member L self name w = (Inl (RuntimeError non_start_msg), w)))
       \<and> (\<forall>m w'. getattr_member L self name w = (Inr m, w') \<longrightarrow>
            getattr_member L self name w' = (Inr m, w')
            \<and> map o_chain (heap w') = map o_chain (heap w))"
proof (intro conjI allI impI)
  assume a: "map_of (cli_commands w) name = None \<and> map_of (o_dict (heap w ! self)) name = None"
  obtain r h1 where c: "compute_flow_parameters self (heap w) = (r, h1)"
    by (cases "compute_flow_parameters self (heap w)")
  show "if o_flow_cls (heap w ! self) \<noteq> None \<and> o_parent (heap w ! self) = None
        then \<exists>w'. getattr_member L self name w = (Inl AttributeError, w')
               \<and> map o_chain (heap w') = map o_chain (heap w)
               \<and> map o_dict (heap w') = map o_dict (heap w)
               \<and> cli_commands w' = cli_commands w
        else getattr_member L self name w = (Inl (RuntimeError non_start_msg), w)"
  proof (cases "o_flow_cls (heap w ! self) \<noteq> None \<and> o_parent (heap w ! self) = None")
    case True
    with c obtain ps where r: "r = Inr ps"
      by (auto simp: compute_flow_parameters_def Let_def split: option.splits)
    from compute_flow_parameters_frame [OF assms(1) c] a assms(2) c r True
    show ?thesis
      by (simp add: getattr_member_def lazy_load_command_def Let_def)
  next
    case False
    then have "compute_flow_parameters self (heap w) = (Inl (RuntimeError non_start_msg), heap w)"
      by (auto simp: compute_flow_parameters_def Let_def split: option.splits)
    with a assms(2) False show ?thesis
      by (simp add: getattr_member_def lazy_load_command_def Let_def)
  qed
next
  fix m w'
  assume g: "getattr_member L self name w = (Inr m, w')"
  show "getattr_member L self name w' = (Inr m, w')"
  proof (cases "map_of (o_dict (heap w ! self)) name")
    case (Some m')
    with g show ?thesis by (auto simp: getattr_member_def Let_def)
  next
    case None
    obtain r h1 where c: "compute_flow_parameters self (heap w) = (r, h1)"
      by (cases "compute_flow_parameters self (heap w)")
    note fr = compute_flow_parameters_frame [OF assms(1) c]
    from g None assms(2) c fr assms(1) show ?thesis
      by (auto simp: getattr_member_def lazy_load_command_def Let_def
          split: sum.splits option.splits click_cmd.splits prod.splits)
  qed
  from getattr_member_frame [OF assms(1) g]
  show "map o_chain (heap w') = map o_chain (heap w)" by simp
qed

theorem C10_witness:
  "fst (getattr_member example_lib 0 ''nope'' root_world) = Inl AttributeError
   \<and> map o_chain (heap (snd (getattr_member example_lib 0 ''nope'' root_world)))
       = map o_chain (heap root_world)
   \<and> fst (getattr_member example_lib 0 ''run'' root_world) = Inr run_method
   \<and> getattr_member example_lib 0 ''run'' (snd (getattr_member example_lib 0 ''run'' root_world))
       = (Inr run_method, snd (getattr_member example_lib 0 ''run'' root_world))"
proof -
  have l: "(0::nat) < length (heap root_world)"
    and cl: "o_class (heap root_world ! 0) = Root_class ''../try.py''"
    by (simp_all add: root_world_def init_obj_def)
  have n: "map_of (cli_commands root_world) ''nope'' = None
      \<and> map_of (o_dict (heap root_world ! 0)) ''nope'' = None"
    by code_simp
  have r: "o_flow_cls (heap root_world ! 0) \<noteq> None \<and> o_parent (heap root_world ! 0) = None"
    by (simp add: root_world_def init_obj_def)
  note t1 = C10_member_access [OF l cl, of "''nope''" example_lib]
  note t2 = C10_member_access [OF l cl, of "''run''" example_lib]
  from mp [OF conjunct1 [OF t1] n] r
  obtain w' where w': "getattr_member example_lib 0 ''nope'' root_world = (Inl AttributeError, w')"
    "map o_chain (heap w') = map o_chain (heap root_world)"
    by auto
  have g: "getattr_member example_lib 0 ''run'' root_world
      = (Inr run_method, snd (getattr_member example_lib 0 ''run'' root_world))"
    by (simp add: run_method_is_compiled)
  have f1: "fst (getattr_member example_lib 0 ''nope'' root_world) = Inl AttributeError"
    and f2: "map o_chain (heap (snd (getattr_member example_lib 0 ''nope'' root_world)))
       = map o_chain (heap root_world)"
    using w' by simp_all
  have f3: "fst (getattr_member example_lib 0 ''run'' root_world) = Inr run_method"
    by (simp add: run_method_is_compiled)
  have f4: "getattr_member example_lib 0 ''run''
       (snd (getattr_member example_lib 0 ''run'' root_world))
       = (Inr run_method, snd (getattr_member example_lib 0 ''run'' root_world))"
    using conjunct2 [OF t2, rule_format, OF g] by (rule conjunct1)
  from f1 f2 f3 f4 show ?thesis by (intro conjI)
qed

text \<open>
  C10 as stated fails: for a flow file without a flow class, \<open>from_cli\<close> makes root
  objects without one, and reading the member \<open>nope\<close>, which matches no command, raises
  the RuntimeError of \<open>_compute_flow_parameters\<close>, not AttributeError.
\<close>

theorem C10_counterexample:
  "map_option fst
     (root_then_member example_lib ''../try.py'' None example_world [] ''nope'' [])
   = Some (Inl (RuntimeError
        ''Computing flow-level parameters for a non start API. Please report to the Metaflow team.''))"
  by code_simp

end
